theory Spec2Isabelle
  imports Main "HOL-Library.Sublist"
begin

section \<open>JavaScript values and string primitives\<close>

text \<open>
  The plugin is JavaScript. The values it handles in the places modelled here are strings,
  \<open>undefined\<close> and \<open>null\<close>. Strings are modelled as ASCII strings: function names,
  topic names and ARNs are ASCII, and on ASCII the case conversions below are those of
  \<open>String.prototype.toLowerCase\<close> and \<open>toUpperCase\<close>.
\<close>

datatype jsval = Undefined | Null | Str string

text \<open>Truthiness, as tested by \<open>if (v)\<close>, \<open>!v\<close>, \<open>a || b\<close> and \<open>a && b\<close>.\<close>

fun truthy :: "jsval \<Rightarrow> bool" where
  "truthy Undefined = False"
| "truthy Null = False"
| "truthy (Str s) = (s \<noteq> [])"

text \<open>The conversion applied by \<open>'text' + v\<close> and by \<open>%s\<close> in \<open>util.format\<close>.\<close>

fun to_string :: "jsval \<Rightarrow> string" where
  "to_string Undefined = ''undefined''"
| "to_string Null = ''null''"
| "to_string (Str s) = s"

text \<open>\<open>a || b\<close>\<close>

definition or_else :: "jsval \<Rightarrow> jsval \<Rightarrow> jsval" where
  "or_else a b = (if truthy a then a else b)"

definition upper_letters :: string where
  "upper_letters = ''ABCDEFGHIJKLMNOPQRSTUVWXYZ''"

definition lower_letters :: string where
  "lower_letters = ''abcdefghijklmnopqrstuvwxyz''"

definition digits :: string where
  "digits = ''0123456789''"

definition lower_char :: "char \<Rightarrow> char" where
  "lower_char c = (case map_of (zip upper_letters lower_letters) c of Some d \<Rightarrow> d | None \<Rightarrow> c)"

definition upper_char :: "char \<Rightarrow> char" where
  "upper_char c = (case map_of (zip lower_letters upper_letters) c of Some d \<Rightarrow> d | None \<Rightarrow> c)"

definition toLowerCase :: "string \<Rightarrow> string" where
  "toLowerCase s = map lower_char s"

definition toUpperCase :: "string \<Rightarrow> string" where
  "toUpperCase s = map upper_char s"

text \<open>\<open>hay.indexOf(needle) !== -1\<close>: the needle occurs as a contiguous substring.\<close>

fun contains :: "string \<Rightarrow> string \<Rightarrow> bool" where
  "contains [] needle = (needle = [])"
| "contains (c # cs) needle = (prefix needle (c # cs) \<or> contains cs needle)"

text \<open>\<open>s.split(sep)\<close> for a one-character separator: never empty, \<open>''''\<close> gives \<open>['''']\<close>.\<close>

fun split :: "char \<Rightarrow> string \<Rightarrow> string list" where
  "split sep [] = [Nil]"
| "split sep (c # cs) =
     (if c = sep then [] # split sep cs
      else (case split sep cs of w # ws \<Rightarrow> (c # w) # ws | [] \<Rightarrow> [c # []]))"

text \<open>\<open>xs[i]\<close> on an array of strings: \<open>undefined\<close> out of range.\<close>

definition at_index :: "string list \<Rightarrow> nat \<Rightarrow> jsval" where
  "at_index xs i = (if i < length xs then Str (xs ! i) else Undefined)"

text \<open>The character class \<open>[0-9A-Za-z]\<close> of the regular expression in \<open>_normalizeTopicName\<close>.\<close>

definition is_alnum :: "char \<Rightarrow> bool" where
  "is_alnum c = (c \<in> set (digits @ upper_letters @ lower_letters))"

section \<open>Errors\<close>

text \<open>
  \<open>TypeError\<close>: a method is called on \<open>undefined\<close> or \<open>null\<close>. \<open>Rejected r\<close>: a remote
  request's promise is rejected with reason \<open>r\<close>. An exception thrown inside a \<open>then\<close>
  callback rejects the promise of the chain, so both are the \<open>Inl\<close> results of an action.
\<close>

datatype error = TypeError | Rejected string

section \<open>Name normalization\<close>

text \<open>
  \<open>_normalize\<close>: \<open>_.isEmpty(s)\<close> holds of \<open>undefined\<close>, \<open>null\<close> and the empty string, and
  the function then returns \<open>undefined\<close>; otherwise \<open>s[0].toUpperCase() + s.substr(1)\<close>.
\<close>

fun normalize_name :: "jsval \<Rightarrow> jsval" where
  "normalize_name (Str (c # cs)) = Str (toUpperCase [c] @ cs)"
| "normalize_name v = Undefined"

text \<open>
  \<open>_normalizeTopicName\<close>: \<open>arn.replace(/[^0-9A-Za-z]/g, '')\<close> is evaluated first, and is
  a TypeError when \<open>arn\<close> is \<open>undefined\<close> or \<open>null\<close>.
\<close>

fun normalizeTopicName :: "jsval \<Rightarrow> error + jsval" where
  "normalizeTopicName (Str s) = Inr (normalize_name (Str (filter is_alnum s)))"
| "normalizeTopicName v = Inl TypeError"

section \<open>Configuration: function definitions and topic bindings\<close>

text \<open>
  An \<open>externalSNS\<close> binding is a bare string or an object. Of an object the code reads
  \<open>topic\<close>, \<open>Protocol\<close>, and \<open>DeliveryPolicy\<close> when the key is present (\<open>_.has\<close>):
  \<open>None\<close> is the absent key. \<open>'p\<close> is the type of delivery-policy values.
\<close>

datatype 'p binding =
    Bare string
  | Structured (topic: jsval) (DeliveryPolicy: "'p option") (binding_Protocol: jsval)

text \<open>
  A trigger event of a function: the \<open>path\<close> of its \<open>http\<close> property when it has that property,
  and its \<open>externalSNS\<close> binding when it has one.
\<close>

record 'p trigger =
  http :: "jsval option"
  externalSNS :: "'p binding option"

record 'p fnDef =
  name :: string
  events :: "'p trigger list"

text \<open>\<open>if (_.isObject(topicName)) { topicName = topicName.topic; }\<close>\<close>

fun topic_of :: "'p binding \<Rightarrow> jsval" where
  "topic_of (Bare s) = Str s"
| "topic_of (Structured t d p) = t"

section \<open>Permission compiler\<close>

text \<open>CloudFormation template values: literals and the intrinsic functions used.\<close>

datatype cfn = Lit jsval | Ref string | GetAtt string string | Join string "cfn list"

record permission =
  Type :: string
  FunctionName :: cfn
  Action :: string
  Principal :: string
  SourceArn :: cfn

text \<open>
  \<open>addEventPermission\<close>. The last argument is
  \<open>compiledCloudFormationTemplate.Resources\<close>, returned updated. \<open>_normalizeTopicName\<close>
  throws before anything is written. Where it does not throw, \<open>topicName\<close> is a string.
\<close>

definition addEventPermission ::
  "string \<Rightarrow> 'p fnDef \<Rightarrow> 'p binding \<Rightarrow> (string \<rightharpoonup> permission) \<Rightarrow> error + (string \<rightharpoonup> permission)" where
  "addEventPermission fnName fnDef b Resources =
     (let normalizedFnName = normalize_name (Str fnName);
          fnRef = to_string normalizedFnName @ ''LambdaFunction'';
          topicName = topic_of b
      in case normalizeTopicName topicName of
           Inl e \<Rightarrow> Inl e
         | Inr normalizedTopicName \<Rightarrow>
             (let permRef = to_string normalizedFnName @ ''LambdaPermission''
                              @ to_string normalizedTopicName;
                  permission = \<lparr> Type = ''AWS::Lambda::Permission'',
                                 FunctionName = GetAtt fnRef ''Arn'',
                                 Action = ''lambda:InvokeFunction'',
                                 Principal = ''sns.amazonaws.com'',
                                 SourceArn = Join '':'' [Lit (Str ''arn:aws:sns''), Ref ''AWS::Region'',
                                               Ref ''AWS::AccountId'', Lit topicName] \<rparr>
              in Inr (Resources(permRef \<mapsto> permission))))"

section \<open>The remote API, the plugin instance and promises\<close>

text \<open>
  An entry of \<open>resp.Subscriptions\<close> and an entry of \<open>res.items\<close>, with the fields the
  code reads. A field the remote response does not carry reads as \<open>undefined\<close>.
\<close>

record subscription =
  sub_SubscriptionArn :: jsval
  sub_Protocol :: jsval
  sub_Endpoint :: jsval

record rest_api =
  api_name :: jsval
  api_id :: jsval

text \<open>
  The calls of \<open>provider.request(service, method, params, stage, region)\<close> that the plugin
  makes, with their \<open>params\<close>. Every call passes the same \<open>stage\<close> and \<open>region\<close>
  options, which are left out. The \<open>AttributeValue\<close> of \<open>setSubscriptionAttributes\<close> is
  \<open>JSON.stringify({healthyRetryPolicy: v})\<close>; the request records the value \<open>v\<close>.
\<close>

datatype 'p request =
    GetFunction string
  | GetRestApis
  | ListSubscriptionsByTopic string
  | Subscribe string jsval jsval
  | Unsubscribe jsval
  | SetSubscriptionAttributes string jsval 'p

text \<open>What an action does that can be observed: log lines, remote calls, timed waits.\<close>

datatype 'p effect = Log string | Request "'p request" | Delay nat

text \<open>
  The plugin instance (\<open>this\<close>): its options and its provider. The remote side is a state
  \<open>'s\<close> that each request reads and may change; a request resolves (\<open>Inr\<close>) or is
  rejected (\<open>Inl\<close>). \<open>elapse ms\<close> is what the remote side does on its own while the
  plugin waits \<open>ms\<close> milliseconds.
\<close>

record ('s, 'p) plugin =
  opts_stage :: jsval
  opts_region :: jsval
  opts_noDeploy :: bool
  getApiGatewayName :: string
  lambda_getFunction :: "string \<Rightarrow> 's \<Rightarrow> (error + string) \<times> 's"
  apigateway_getRestApis :: "'s \<Rightarrow> (error + rest_api list) \<times> 's"
  sns_listSubscriptionsByTopic :: "string \<Rightarrow> 's \<Rightarrow> (error + subscription list) \<times> 's"
  sns_subscribe :: "string \<Rightarrow> jsval \<Rightarrow> jsval \<Rightarrow> 's \<Rightarrow> (error + jsval) \<times> 's"
  sns_unsubscribe :: "jsval \<Rightarrow> 's \<Rightarrow> (error + unit) \<times> 's"
  sns_setSubscriptionAttributes :: "string \<Rightarrow> jsval \<Rightarrow> 'p \<Rightarrow> 's \<Rightarrow> (error + unit) \<times> 's"
  elapse :: "nat \<Rightarrow> 's \<Rightarrow> 's"

text \<open>
  A promise, run from a remote state: its outcome, the remote state it leaves, and the
  effects it had, in order.
\<close>

type_synonym ('s, 'p, 'a) promise = "'s \<Rightarrow> (error + 'a) \<times> 's \<times> 'p effect list"

definition resolve :: "'a \<Rightarrow> ('s, 'p, 'a) promise" where
  "resolve a w = (Inr a, w, [])"

definition reject :: "error \<Rightarrow> ('s, 'p, 'a) promise" where
  "reject e w = (Inl e, w, [])"

text \<open>\<open>m.then(f)\<close>: a rejection skips \<open>f\<close>.\<close>

definition thenP :: "('s, 'p, 'a) promise \<Rightarrow> ('a \<Rightarrow> ('s, 'p, 'b) promise) \<Rightarrow> ('s, 'p, 'b) promise" where
  "thenP m f w =
     (case m w of
        (Inl e, w', es) \<Rightarrow> (Inl e, w', es)
      | (Inr a, w', es) \<Rightarrow> (case f a w' of (r, w'', es') \<Rightarrow> (r, w'', es @ es')))"

text \<open>\<open>self._serverless.cli.log(line)\<close>\<close>

definition log :: "string \<Rightarrow> ('s, 'p, unit) promise" where
  "log line w = (Inr (), w, [Log line])"

definition request :: "'p request \<Rightarrow> ('s \<Rightarrow> (error + 'a) \<times> 's) \<Rightarrow> ('s, 'p, 'a) promise" where
  "request r remote w = (case remote w of (res, w') \<Rightarrow> (res, w', [Request r]))"

text \<open>\<open>BpPromise.delay(ms)\<close>\<close>

definition delay :: "('s, 'p) plugin \<Rightarrow> nat \<Rightarrow> ('s, 'p, unit) promise" where
  "delay self ms w = (Inr (), elapse self ms w, [Delay ms])"

definition outcome :: "(error + 'a) \<times> 's \<times> 'p effect list \<Rightarrow> error + 'a" where
  "outcome x = fst x"

definition effects :: "(error + 'a) \<times> 's \<times> 'p effect list \<Rightarrow> 'p effect list" where
  "effects x = snd (snd x)"

fun requests :: "'p effect list \<Rightarrow> 'p request list" where
  "requests [] = []"
| "requests (Request r # es) = r # requests es"
| "requests (e # es) = requests es"

text \<open>The remote calls that change the remote side.\<close>

fun mutating :: "'p request \<Rightarrow> bool" where
  "mutating (Subscribe t p e) = True"
| "mutating (Unsubscribe a) = True"
| "mutating (SetSubscriptionAttributes n a v) = True"
| "mutating r = False"


section \<open>Subscription resolver\<close>

text \<open>
  The callback of \<open>_.find\<close> in \<open>_getSubscriptionInfo\<close>.
  \<open>sub.SubscriptionArn.toLowerCase()\<close> is a TypeError unless the field is a string. In
  \<open>sub.Protocol === protocol || 'lambda' && (...)\<close> the operator \<open>&&\<close> binds tighter
  than \<open>||\<close>; \<open>===\<close> on strings, \<open>undefined\<close> and \<open>null\<close> is equality of values.
\<close>

definition is_match :: "jsval \<Rightarrow> jsval \<Rightarrow> string \<Rightarrow> subscription \<Rightarrow> error + bool" where
  "is_match protocol httpEndpoint fnArn sub =
     (case sub_SubscriptionArn sub of
        Str arn \<Rightarrow>
          if contains (toLowerCase arn) ''pending'' then Inr False
          else Inr (sub_Protocol sub = protocol \<or>
                    (truthy (Str ''lambda'') \<and>
                      (sub_Endpoint sub = httpEndpoint \<or> sub_Endpoint sub = Str fnArn)))
      | _ \<Rightarrow> Inl TypeError)"

text \<open>\<open>_.find(list, callback)\<close> with a callback that may throw.\<close>

fun find_first :: "('a \<Rightarrow> error + bool) \<Rightarrow> 'a list \<Rightarrow> error + 'a option" where
  "find_first p [] = Inr None"
| "find_first p (x # xs) =
     (case p x of
        Inl e \<Rightarrow> Inl e
      | Inr b \<Rightarrow> if b then Inr (Some x) else find_first p xs)"

record info =
  FunctionArn :: string
  TopicArn :: string
  SubscriptionArn :: jsval
  Endpoint :: jsval

text \<open>\<open>'arn:aws:sns:' + region + ':' + acctID + ':' + topicName\<close>\<close>

definition compose_topicArn :: "string \<Rightarrow> jsval \<Rightarrow> string" where
  "compose_topicArn fnArn topicName =
     (let region = at_index (split CHR '':'' fnArn) 3;
          acctID = at_index (split CHR '':'' fnArn) 4
      in ''arn:aws:sns:'' @ to_string region @ '':'' @ to_string acctID @ '':''
           @ to_string topicName)"

text \<open>
  The second \<open>then\<close> callback of \<open>_getSubscriptionInfo\<close>: \<open>_.find(...) || {}\<close>, and
  the fields of the result read from it.
\<close>

definition select_existing ::
  "jsval \<Rightarrow> jsval \<Rightarrow> string \<Rightarrow> string \<Rightarrow> subscription list \<Rightarrow> error + info" where
  "select_existing protocol httpEndpoint fnArn topicArn subs =
     (case find_first (is_match protocol httpEndpoint fnArn) subs of
        Inl e \<Rightarrow> Inl e
      | Inr None \<Rightarrow>
          Inr \<lparr> FunctionArn = fnArn, TopicArn = topicArn,
                SubscriptionArn = Undefined, Endpoint = Undefined \<rparr>
      | Inr (Some existing) \<Rightarrow>
          Inr \<lparr> FunctionArn = fnArn, TopicArn = topicArn,
                SubscriptionArn = sub_SubscriptionArn existing,
                Endpoint = sub_Endpoint existing \<rparr>)"

definition getSubscriptionInfo ::
  "('s, 'p) plugin \<Rightarrow> 'p fnDef \<Rightarrow> jsval \<Rightarrow> jsval \<Rightarrow> jsval \<Rightarrow> ('s, 'p, info) promise" where
  "getSubscriptionInfo self fnDef topicName protocol httpEndpoint =
     thenP
       (thenP (request (GetFunction (name fnDef)) (lambda_getFunction self (name fnDef)))
          (\<lambda>fnArn.
             let topicArn = compose_topicArn fnArn topicName
             in thenP (log (''Function ARN: '' @ fnArn)) (\<lambda>_.
                thenP (log (''Topic ARN: '' @ topicArn)) (\<lambda>_.
                thenP (request (ListSubscriptionsByTopic topicArn)
                         (sns_listSubscriptionsByTopic self topicArn))
                  (\<lambda>subs. resolve (fnArn, topicArn, subs))))))
       (\<lambda>(fnArn, topicArn, subs). \<lambda>w.
          case select_existing protocol httpEndpoint fnArn topicArn subs of
            Inl e \<Rightarrow> reject e w
          | Inr i \<Rightarrow> resolve i w)"

text \<open>The effects of a resolver run that reaches the listing request.\<close>

definition resolver_effects :: "string \<Rightarrow> string \<Rightarrow> string \<Rightarrow> 'p effect list" where
  "resolver_effects fnName fnArn topicArn =
     [Request (GetFunction fnName), Log (''Function ARN: '' @ fnArn),
      Log (''Topic ARN: '' @ topicArn), Request (ListSubscriptionsByTopic topicArn)]"

section \<open>Endpoint resolver\<close>

definition DEFAULT_REGION :: string where
  "DEFAULT_REGION = ''us-east-1''"

text \<open>\<open>util.format('https://%s.execute-api.%s.amazonaws.com/%s/%s', a, b, c, d)\<close>\<close>

definition format_invoke_url :: "jsval \<Rightarrow> jsval \<Rightarrow> jsval \<Rightarrow> jsval \<Rightarrow> string" where
  "format_invoke_url a b c d =
     ''https://'' @ to_string a @ ''.execute-api.'' @ to_string b @ ''.amazonaws.com/''
       @ to_string c @ ''/'' @ to_string d"

definition getRestApiId :: "('s, 'p) plugin \<Rightarrow> ('s, 'p, jsval) promise" where
  "getRestApiId self =
     (let apiName = getApiGatewayName self
      in thenP
           (thenP (request GetRestApis (apigateway_getRestApis self))
              (\<lambda>items. resolve (find (\<lambda>item. Str apiName = api_name item) items)))
           (\<lambda>api. resolve (case api of Some a \<Rightarrow> api_id a | None \<Rightarrow> Null)))"

definition getFunctionEndpoint :: "('s, 'p) plugin \<Rightarrow> 'p fnDef \<Rightarrow> ('s, 'p, jsval) promise" where
  "getFunctionEndpoint self fnDef =
     (let httpEv = find (\<lambda>ev. http ev \<noteq> None) (events fnDef);
          apiPath = (case httpEv of
                       Some ev \<Rightarrow> (case http ev of Some path \<Rightarrow> path | None \<Rightarrow> Null)
                     | None \<Rightarrow> Null)
      in thenP (getRestApiId self)
           (\<lambda>apiId. if truthy apiId \<and> truthy apiPath
                 then resolve (Str (format_invoke_url apiId
                                 (or_else (opts_region self) (Str DEFAULT_REGION))
                                 (opts_stage self) apiPath))
                 else resolve Null))"

section \<open>Set-subscription-attributes\<close>

text \<open>What an action's promise resolves to.\<close>

datatype result = NoValue | Message string | RemoteResponse

definition DELIVERY_POLICY_ATTR :: string where
  "DELIVERY_POLICY_ATTR = ''DeliveryPolicy''"

record 'p attribute =
  attr_name :: string
  attr_value :: "'p"

definition setSubscriptionAttributes ::
  "('s, 'p) plugin \<Rightarrow> jsval \<Rightarrow> 'p attribute \<Rightarrow> ('s, 'p, result) promise" where
  "setSubscriptionAttributes self subscriptionArn attribute =
     (if \<not> truthy subscriptionArn then resolve (Message ''Subscription ARN was empty'')
      else thenP
             (request (SetSubscriptionAttributes (attr_name attribute) subscriptionArn
                         (attr_value attribute))
                (sns_setSubscriptionAttributes self (attr_name attribute) subscriptionArn
                   (attr_value attribute)))
             (\<lambda>_. resolve RemoteResponse))"

section \<open>Subscribe action\<close>

text \<open>The normalization of the binding at the head of \<open>subscribeFunction\<close>.\<close>

fun subscriptionAttrs_of :: "'p binding \<Rightarrow> 'p attribute option" where
  "subscriptionAttrs_of (Structured t (Some v) p) =
     Some \<lparr> attr_name = DELIVERY_POLICY_ATTR, attr_value = v \<rparr>"
| "subscriptionAttrs_of b = None"

fun protocol_of :: "'p binding \<Rightarrow> jsval" where
  "protocol_of (Structured t d p) = (if truthy p then p else Str ''lambda'')"
| "protocol_of (Bare s) = Str ''lambda''"

text \<open>
  \<open>self._getFunctionEndpoint(fnDef).then(function(fnEndpoint) {...})\<close>: the promise of the
  resolver's result, with the \<open>endpoint\<close> variable the callback assigns.
\<close>

definition subscribeResolve ::
  "('s, 'p) plugin \<Rightarrow> 'p fnDef \<Rightarrow> jsval \<Rightarrow> jsval \<Rightarrow> ('s, 'p, jsval \<times> info) promise" where
  "subscribeResolve self fnDef topicName protocol =
     thenP (getFunctionEndpoint self fnDef) (\<lambda>fnEndpoint.
     thenP (getSubscriptionInfo self fnDef topicName protocol (or_else fnEndpoint Null))
       (\<lambda>info. resolve (fnEndpoint, info)))"

text \<open>
  The callback on the response of the \<open>subscribe\<close> request; \<open>response\<close> stands for
  \<open>response.SubscriptionArn\<close>. The test \<open>subscriptionAttrs && response.SubscriptionArn\<close>
  holds when there are attributes and the identifier is a non-empty string.
\<close>

definition afterSubscribe ::
  "('s, 'p) plugin \<Rightarrow> 'p fnDef \<Rightarrow> jsval \<Rightarrow> jsval \<Rightarrow> 'p attribute option \<Rightarrow> info \<Rightarrow> jsval
     \<Rightarrow> ('s, 'p, result) promise" where
  "afterSubscribe self fnDef topicName protocol subscriptionAttrs info response =
     thenP (log (''Function '' @ FunctionArn info @ '' is now subscribed to '' @ TopicArn info))
       (\<lambda>_. case subscriptionAttrs of
               None \<Rightarrow> resolve NoValue
             | Some attrs \<Rightarrow>
                 (case response of
                    Str arn \<Rightarrow>
                      if arn = [] then resolve NoValue
                      else if contains (toLowerCase arn) ''pending confirmation'' then
                        thenP (log ''Subscription is pending, resubscribing, retrying in 10 seconds'')
                          (\<lambda>_.
                        thenP (thenP (delay self 10000) (\<lambda>_.
                                 getSubscriptionInfo self fnDef topicName protocol Undefined))
                          (\<lambda>newInfo.
                        thenP (log (''Setting subscription attributes on: ''
                                      @ to_string (SubscriptionArn newInfo)))
                          (\<lambda>_. setSubscriptionAttributes self (SubscriptionArn newInfo) attrs)))
                      else
                        thenP (log ''Setting subscription attributes'')
                          (\<lambda>_. setSubscriptionAttributes self response attrs)
                  | _ \<Rightarrow> resolve NoValue))"

definition subscribeFunction ::
  "('s, 'p) plugin \<Rightarrow> string \<Rightarrow> 'p fnDef \<Rightarrow> 'p binding \<Rightarrow> ('s, 'p, result) promise" where
  "subscribeFunction self fnName fnDef b =
     (let subscriptionAttrs = subscriptionAttrs_of b;
          protocol = protocol_of b;
          topicName = topic_of b
      in if opts_noDeploy self then
           thenP (log (''Not subscribing '' @ name fnDef @ '' to '' @ to_string topicName
                         @ '' because of the noDeploy flag''))
             (\<lambda>_. resolve NoValue)
         else
           thenP (log (''Need to subscribe '' @ name fnDef @ '' to '' @ to_string topicName))
             (\<lambda>_.
           thenP (subscribeResolve self fnDef topicName protocol)
             (\<lambda>(fnEndpoint, info).
                let endpoint = or_else fnEndpoint (Str (FunctionArn info))
                in if truthy (SubscriptionArn info) then
                     thenP (log (''Function '' @ FunctionArn info @ '' is already subscribed to ''
                                   @ TopicArn info))
                       (\<lambda>_. case subscriptionAttrs of
                               Some attrs \<Rightarrow>
                                 thenP (log ''Setting subscription attributes'')
                                   (\<lambda>_. setSubscriptionAttributes self (SubscriptionArn info) attrs)
                             | None \<Rightarrow> resolve NoValue)
                   else
                     thenP (request (Subscribe (TopicArn info) protocol endpoint)
                              (sns_subscribe self (TopicArn info) protocol endpoint))
                       (afterSubscribe self fnDef topicName protocol subscriptionAttrs info))))"

section \<open>Unsubscribe action\<close>

definition unsubscribeFunction ::
  "('s, 'p) plugin \<Rightarrow> string \<Rightarrow> 'p fnDef \<Rightarrow> 'p binding \<Rightarrow> ('s, 'p, result) promise" where
  "unsubscribeFunction self fnName fnDef b =
     (let topicName = topic_of b
      in thenP (log (''Need to unsubscribe '' @ name fnDef @ '' from '' @ to_string topicName))
           (\<lambda>_.
         thenP (getSubscriptionInfo self fnDef topicName Undefined Undefined)
           (\<lambda>info.
              if \<not> truthy (SubscriptionArn info) then
                thenP (log (''Function '' @ FunctionArn info @ '' is not subscribed to ''
                              @ TopicArn info))
                  (\<lambda>_. resolve NoValue)
              else
                thenP (request (Unsubscribe (SubscriptionArn info))
                         (sns_unsubscribe self (SubscriptionArn info)))
                  (\<lambda>_.
                thenP (log (''Function '' @ FunctionArn info @ '' is no longer subscribed to ''
                              @ TopicArn info @ '' (deleted ''
                              @ to_string (SubscriptionArn info) @ '')''))
                  (\<lambda>_. resolve NoValue)))))"

section \<open>Colon-delimited fields\<close>

text \<open>
  The reading of a string as fields separated by colons, in the other direction: the
  fields joined again. It states what the positions 3 and 4 of an ARN are, against
  \<open>split\<close>.
\<close>

fun join_fields :: "string list \<Rightarrow> string" where
  "join_fields [] = []"
| "join_fields [f] = f"
| "join_fields (f # g # fs) = f @ '':'' @ join_fields (g # fs)"

section \<open>A simulated remote side\<close>

text \<open>
  A small remote side on which the actions are run in the concrete instances below. Its
  state is the list of subscriptions of the one topic. A \<open>lambda\<close> subscription is
  confirmed at once; a subscription of another protocol is listed as pending, the
  \<open>subscribe\<close> response says \<open>pending confirmation\<close>, and it is confirmed while time
  passes. The function \<open>notify-dev\<close> is deployed; no REST API is.
\<close>

definition sim_fnArn :: string where
  "sim_fnArn = ''arn:aws:lambda:us-east-1:111122223333:function:notify-dev''"

definition sim_confirm :: "subscription \<Rightarrow> subscription" where
  "sim_confirm sub =
     (if sub_SubscriptionArn sub = Str ''PendingConfirmation''
      then sub\<lparr> sub_SubscriptionArn := Str ''arn:aws:sns:us-east-1:111122223333:orders:c2'' \<rparr>
      else sub)"

definition sim_subscribe ::
  "string \<Rightarrow> jsval \<Rightarrow> jsval \<Rightarrow> subscription list \<Rightarrow> (error + jsval) \<times> subscription list" where
  "sim_subscribe topicArn protocol endpoint w =
     (if protocol = Str ''lambda''
      then (Inr (Str (topicArn @ '':c1'')),
            w @ [\<lparr> sub_SubscriptionArn = Str (topicArn @ '':c1''), sub_Protocol = protocol,
                   sub_Endpoint = endpoint \<rparr>])
      else (Inr (Str ''pending confirmation''),
            w @ [\<lparr> sub_SubscriptionArn = Str ''PendingConfirmation'', sub_Protocol = protocol,
                   sub_Endpoint = endpoint \<rparr>]))"

definition sim :: "(subscription list, nat) plugin" where
  "sim = \<lparr> opts_stage = Str ''dev'', opts_region = Undefined, opts_noDeploy = False,
           getApiGatewayName = ''dev-notify'',
           lambda_getFunction = (\<lambda>n w. (Inr sim_fnArn, w)),
           apigateway_getRestApis = (\<lambda>w. (Inr [], w)),
           sns_listSubscriptionsByTopic = (\<lambda>t w. (Inr w, w)),
           sns_subscribe = sim_subscribe,
           sns_unsubscribe = (\<lambda>a w. (Inr (), filter (\<lambda>sub. sub_SubscriptionArn sub \<noteq> a) w)),
           sns_setSubscriptionAttributes = (\<lambda>n a v w. (Inr (), w)),
           elapse = (\<lambda>ms w. map sim_confirm w) \<rparr>"

definition sim_fnDef :: "nat fnDef" where
  "sim_fnDef = \<lparr> name = ''notify-dev'', events = [] \<rparr>"

text \<open>Subscriptions of the topic used in the concrete instances.\<close>

definition sim_lambda_sub :: subscription where
  "sim_lambda_sub = \<lparr> sub_SubscriptionArn = Str ''arn:aws:sns:us-east-1:111122223333:orders:c1'',
                       sub_Protocol = Str ''lambda'', sub_Endpoint = Str sim_fnArn \<rparr>"

definition sim_http_sub :: subscription where
  "sim_http_sub = \<lparr> sub_SubscriptionArn = Str ''arn:aws:sns:us-east-1:111122223333:orders:h1'',
                     sub_Protocol = Str ''https'',
                     sub_Endpoint = Str (format_invoke_url (Str ''abc123'') (Str ''us-east-1'')
                                           (Str ''dev'') (Str ''notify'')) \<rparr>"

definition sim_other_sub :: subscription where
  "sim_other_sub = \<lparr> sub_SubscriptionArn = Str ''arn:aws:sns:us-east-1:111122223333:orders:o1'',
                      sub_Protocol = Str ''lambda'',
                      sub_Endpoint = Str ''arn:aws:lambda:us-east-1:111122223333:function:other-dev'' \<rparr>"

text \<open>
  The same remote side with the REST API of the service deployed, and the function with an
  HTTP route, so that its endpoint is an invoke URL.
\<close>

definition sim_api :: "(subscription list, nat) plugin" where
  "sim_api = sim\<lparr> apigateway_getRestApis :=
                     (\<lambda>w. (Inr [\<lparr> api_name = Str ''dev-notify'', api_id = Str ''abc123'' \<rparr>], w)) \<rparr>"

definition sim_http_fnDef :: "nat fnDef" where
  "sim_http_fnDef = \<lparr> name = ''notify-dev'',
                       events = [\<lparr> http = Some (Str ''notify''), externalSNS = None \<rparr>] \<rparr>"

definition sim_pending_sub :: subscription where
  "sim_pending_sub = \<lparr> sub_SubscriptionArn = Str ''PendingConfirmation'',
                        sub_Protocol = Str ''https'',
                        sub_Endpoint = Str (format_invoke_url (Str ''abc123'') (Str ''us-east-1'')
                                              (Str ''dev'') (Str ''notify'')) \<rparr>"

section \<open>Auxiliary facts\<close>

lemmas char_tables = is_alnum_def digits_def upper_letters_def lower_letters_def
  toUpperCase_def upper_char_def toLowerCase_def lower_char_def

lemmas promise_defs = thenP_def request_def log_def resolve_def reject_def delay_def

subsection \<open>Strings\<close>

lemma split_not_Nil: "split sep s \<noteq> []"
  by (induction s) (auto split: list.splits)

lemma split_no_sep: "sep \<notin> set f \<Longrightarrow> split sep f = [f]"
  by (induction f) (auto split: list.splits)

lemma split_field_sep: "sep \<notin> set f \<Longrightarrow> split sep (f @ sep # rest) = f # split sep rest"
  by (induction f) (auto split: list.splits)

lemma split_join_fields:
  "segs \<noteq> [] \<Longrightarrow> \<forall>f\<in>set segs. CHR '':'' \<notin> set f \<Longrightarrow> split CHR '':'' (join_fields segs) = segs"
proof (induction segs rule: join_fields.induct)
  case 1
  then show ?case by simp
next
  case (2 f)
  then show ?case by (simp add: split_no_sep)
next
  case (3 f g fs)
  then have "split CHR '':'' (join_fields (g # fs)) = g # fs" by simp
  moreover have "CHR '':'' \<notin> set f" using 3 by simp
  ultimately show ?case by (simp add: split_field_sep)
qed

lemma join_fields_Cons: "fs \<noteq> [] \<Longrightarrow> join_fields (f # fs) = f @ '':'' @ join_fields fs"
  by (cases fs) simp_all

lemma join_fields_split: "join_fields (split CHR '':'' s) = s"
proof (induction s)
  case Nil
  then show ?case by simp
next
  case (Cons c s)
  show ?case
  proof (cases "c = CHR '':''")
    case True
    then show ?thesis using Cons by (simp add: join_fields_Cons split_not_Nil)
  next
    case False
    obtain w ws where sp: "split CHR '':'' s = w # ws"
      using split_not_Nil [of "CHR '':''" s] by (cases "split CHR '':'' s") auto
    have "join_fields ((c # w) # ws) = c # join_fields (w # ws)"
      by (cases ws) simp_all
    with False sp Cons show ?thesis by simp
  qed
qed

lemma split_fields_no_sep: "f \<in> set (split sep s) \<Longrightarrow> sep \<notin> set f"
proof (induction s arbitrary: f)
  case Nil
  then show ?case by simp
next
  case (Cons c s)
  then show ?case by (auto split: if_splits list.splits)
qed

lemma joined_fields_exist:
  "\<exists>segs. segs \<noteq> [] \<and> (\<forall>f\<in>set segs. CHR '':'' \<notin> set f) \<and> s = join_fields segs"
  by (rule exI [of _ "split CHR '':'' s"])
     (auto simp: split_not_Nil join_fields_split dest: split_fields_no_sep)

lemma contains_sublist: "contains hay needle = sublist needle hay"
  by (induction hay) (simp_all add: sublist_Cons_right)

lemma contains_shorter:
  "contains hay (needle @ rest) \<Longrightarrow> contains hay needle"
  unfolding contains_sublist
  by (meson sublist_append_rightI sublist_order.order_trans)

lemma pending_confirmation_pending:
  "contains s ''pending confirmation'' \<Longrightarrow> contains s ''pending''"
  using contains_shorter [of s "''pending''" "'' confirmation''"] by simp

lemma invoke_url_not_arn: "prefix ''arn:'' fnArn \<Longrightarrow> format_invoke_url a b c d \<noteq> fnArn"
  by (auto simp: format_invoke_url_def prefix_def)

subsection \<open>Requests among effects\<close>

lemma requests_append: "requests (xs @ ys) = requests xs @ requests ys"
  by (induction xs rule: requests.induct) simp_all



subsection \<open>The selection\<close>

lemma find_first_Some:
  "find_first p xs = Inr (Some x) \<Longrightarrow> x \<in> set xs \<and> p x = Inr True"
  by (induction xs) (auto split: sum.splits if_splits)

lemma is_match_iff:
  "is_match protocol httpEndpoint fnArn sub = Inr True \<longleftrightarrow>
     (\<exists>arn. sub_SubscriptionArn sub = Str arn \<and> \<not> contains (toLowerCase arn) ''pending''
        \<and> (sub_Protocol sub = protocol \<or> sub_Endpoint sub = httpEndpoint
             \<or> sub_Endpoint sub = Str fnArn))"
  by (auto simp: is_match_def split: jsval.splits)

lemma is_match_unsubscribe:
  "is_match Undefined Undefined fnArn sub = Inr True \<Longrightarrow>
     sub_Protocol sub = Undefined \<or> sub_Endpoint sub = Undefined \<or> sub_Endpoint sub = Str fnArn"
  by (auto simp: is_match_def split: jsval.splits if_splits)

lemma is_match_not_pending:
  "is_match protocol httpEndpoint fnArn sub = Inr True \<Longrightarrow>
     \<exists>arn. sub_SubscriptionArn sub = Str arn \<and> \<not> contains (toLowerCase arn) ''pending''"
  by (auto simp: is_match_def split: jsval.splits if_splits)

lemma select_existing_Some:
  assumes "select_existing protocol httpEndpoint fnArn topicArn subs = Inr i"
      and "truthy (SubscriptionArn i)"
  shows "\<exists>sub\<in>set subs. sub_SubscriptionArn sub = SubscriptionArn i
           \<and> sub_Endpoint sub = Endpoint i
           \<and> is_match protocol httpEndpoint fnArn sub = Inr True"
  using assms
  by (auto simp: select_existing_def split: sum.splits option.splits dest: find_first_Some)

subsection \<open>Runs of the resolvers\<close>

lemma getSubscriptionInfo_run:
  "getSubscriptionInfo self fnDef topicName protocol httpEndpoint w =
     (case lambda_getFunction self (name fnDef) w of
        (Inl e, w1) \<Rightarrow> (Inl e, w1, [Request (GetFunction (name fnDef))])
      | (Inr fnArn, w1) \<Rightarrow>
          (case sns_listSubscriptionsByTopic self (compose_topicArn fnArn topicName) w1 of
             (Inl e, w2) \<Rightarrow>
               (Inl e, w2, resolver_effects (name fnDef) fnArn (compose_topicArn fnArn topicName))
           | (Inr subs, w2) \<Rightarrow>
               (select_existing protocol httpEndpoint fnArn (compose_topicArn fnArn topicName) subs,
                w2, resolver_effects (name fnDef) fnArn (compose_topicArn fnArn topicName))))"
  by (simp add: getSubscriptionInfo_def promise_defs resolver_effects_def Let_def
           split: prod.splits sum.splits)

lemma getSubscriptionInfo_requests:
  "getSubscriptionInfo self fnDef topicName protocol httpEndpoint w = (r, w', es)
   \<Longrightarrow> filter mutating (requests es) = []"
  by (auto simp: getSubscriptionInfo_run resolver_effects_def split: prod.splits sum.splits)

lemma getSubscriptionInfo_requests_listed:
  assumes "lambda_getFunction self (name fnDef) w = (Inr fnArn, w1)"
  shows "requests (effects (getSubscriptionInfo self fnDef t p h w)) =
           [GetFunction (name fnDef), ListSubscriptionsByTopic (compose_topicArn fnArn t)]"
  using assms
  by (simp add: getSubscriptionInfo_run effects_def resolver_effects_def
        split: prod.splits sum.splits)

lemma getSubscriptionInfo_not_pending:
  assumes "getSubscriptionInfo self fnDef t p h w = (Inr i, w', es)"
      and "SubscriptionArn i = Str arn"
  shows "\<not> contains (toLowerCase arn) ''pending''"
proof -
  from assms(1) obtain fnArn topicArn subs
    where sel: "select_existing p h fnArn topicArn subs = Inr i"
    by (auto simp: getSubscriptionInfo_run split: prod.splits sum.splits)
  show ?thesis
  proof (cases "find_first (is_match p h fnArn) subs")
    case (Inl e)
    with sel show ?thesis by (simp add: select_existing_def)
  next
    case (Inr found)
    show ?thesis
    proof (cases found)
      case None
      with Inr sel assms(2) show ?thesis by (auto simp: select_existing_def)
    next
      case (Some existing)
      with Inr have "is_match p h fnArn existing = Inr True"
        by (auto dest: find_first_Some)
      moreover from Some Inr sel assms(2) have "sub_SubscriptionArn existing = Str arn"
        by (auto simp: select_existing_def)
      ultimately show ?thesis
        by (auto dest: is_match_not_pending)
    qed
  qed
qed

lemma getFunctionEndpoint_run:
  "apigateway_getRestApis self w0 = (Inr items, w) \<Longrightarrow>
   \<exists>ep. getFunctionEndpoint self fnDef w0 = (Inr ep, w, [Request GetRestApis])"
  by (simp add: getFunctionEndpoint_def getRestApiId_def promise_defs Let_def)



lemma subscribeResolve_effects:
  assumes "apigateway_getRestApis self w0 = (Inr items, w)"
  shows "\<exists>h. effects (subscribeResolve self fnDef t p w0) =
           Request GetRestApis # effects (getSubscriptionInfo self fnDef t p h w)"
proof -
  obtain ep where ep: "getFunctionEndpoint self fnDef w0 = (Inr ep, w, [Request GetRestApis])"
    using getFunctionEndpoint_run [OF assms] by blast
  have "effects (subscribeResolve self fnDef t p w0) =
          Request GetRestApis # effects (getSubscriptionInfo self fnDef t p (or_else ep Null) w)"
    by (cases "getSubscriptionInfo self fnDef t p (or_else ep Null) w")
       (auto simp: subscribeResolve_def thenP_def resolve_def ep effects_def
          split: sum.splits prod.splits)
  then show ?thesis by blast
qed

subsection \<open>Runs of set-subscription-attributes and of the subscribe action\<close>


lemma setSubscriptionAttributes_effects:
  "effects (setSubscriptionAttributes self arn a w) =
     (if truthy arn then [Request (SetSubscriptionAttributes (attr_name a) arn (attr_value a))]
      else [])"
  by (simp add: setSubscriptionAttributes_def promise_defs effects_def
           split: prod.splits sum.splits)



lemma afterSubscribe_direct:
  "arn \<noteq> [] \<Longrightarrow> \<not> contains (toLowerCase arn) ''pending confirmation'' \<Longrightarrow>
   afterSubscribe self fnDef t p (Some a) i (Str arn) w =
     (case setSubscriptionAttributes self (Str arn) a w of
        (r, w', es) \<Rightarrow>
          (r, w',
           [Log (''Function '' @ FunctionArn i @ '' is now subscribed to '' @ TopicArn i),
            Log ''Setting subscription attributes''] @ es))"
  by (simp add: afterSubscribe_def thenP_def log_def split: prod.splits sum.splits)

lemma afterSubscribe_pending:
  "arn \<noteq> [] \<Longrightarrow> contains (toLowerCase arn) ''pending confirmation'' \<Longrightarrow>
   afterSubscribe self fnDef t p (Some a) i (Str arn) w =
     (case getSubscriptionInfo self fnDef t p Undefined (elapse self 10000 w) of
        (Inl e, w3, es3) \<Rightarrow>
          (Inl e, w3,
           [Log (''Function '' @ FunctionArn i @ '' is now subscribed to '' @ TopicArn i),
            Log ''Subscription is pending, resubscribing, retrying in 10 seconds'',
            Delay 10000] @ es3)
      | (Inr newInfo, w3, es3) \<Rightarrow>
          (case setSubscriptionAttributes self (SubscriptionArn newInfo) a w3 of
             (r, w4, es4) \<Rightarrow>
               (r, w4,
                [Log (''Function '' @ FunctionArn i @ '' is now subscribed to '' @ TopicArn i),
                 Log ''Subscription is pending, resubscribing, retrying in 10 seconds'',
                 Delay 10000] @ es3
                @ [Log (''Setting subscription attributes on: ''
                          @ to_string (SubscriptionArn newInfo))] @ es4)))"
  by (simp add: afterSubscribe_def thenP_def log_def delay_def split: prod.splits sum.splits)



lemma subscribeFunction_unresolved:
  "\<not> opts_noDeploy self \<Longrightarrow>
   subscribeResolve self fnDef (topic_of b) (protocol_of b) w = (Inl e, w1, es) \<Longrightarrow>
   subscribeFunction self fnName fnDef b w =
     (Inl e, w1,
      Log (''Need to subscribe '' @ name fnDef @ '' to '' @ to_string (topic_of b)) # es)"
  by (simp add: subscribeFunction_def thenP_def log_def Let_def)

lemma subscribeFunction_existing:
  "\<not> opts_noDeploy self \<Longrightarrow>
   subscribeResolve self fnDef (topic_of b) (protocol_of b) w = (Inr (ep, i), w1, es) \<Longrightarrow>
   truthy (SubscriptionArn i) \<Longrightarrow>
   subscribeFunction self fnName fnDef b w =
     (case subscriptionAttrs_of b of
        None \<Rightarrow>
          (Inr NoValue, w1,
           Log (''Need to subscribe '' @ name fnDef @ '' to '' @ to_string (topic_of b)) # es
           @ [Log (''Function '' @ FunctionArn i @ '' is already subscribed to '' @ TopicArn i)])
      | Some a \<Rightarrow>
          (case setSubscriptionAttributes self (SubscriptionArn i) a w1 of
             (r, w2, es2) \<Rightarrow>
               (r, w2,
                Log (''Need to subscribe '' @ name fnDef @ '' to '' @ to_string (topic_of b)) # es
                @ [Log (''Function '' @ FunctionArn i @ '' is already subscribed to ''
                          @ TopicArn i),
                   Log ''Setting subscription attributes''] @ es2)))"
  by (simp add: subscribeFunction_def thenP_def log_def resolve_def Let_def
           split: option.splits prod.splits sum.splits)

lemma subscribeFunction_new:
  "\<not> opts_noDeploy self \<Longrightarrow>
   subscribeResolve self fnDef (topic_of b) (protocol_of b) w = (Inr (ep, i), w1, es) \<Longrightarrow>
   \<not> truthy (SubscriptionArn i) \<Longrightarrow>
   subscribeFunction self fnName fnDef b w =
     (case sns_subscribe self (TopicArn i) (protocol_of b) (or_else ep (Str (FunctionArn i))) w1 of
        (Inl e, w2) \<Rightarrow>
          (Inl e, w2,
           Log (''Need to subscribe '' @ name fnDef @ '' to '' @ to_string (topic_of b)) # es
           @ [Request (Subscribe (TopicArn i) (protocol_of b)
                         (or_else ep (Str (FunctionArn i))))])
      | (Inr response, w2) \<Rightarrow>
          (case afterSubscribe self fnDef (topic_of b) (protocol_of b) (subscriptionAttrs_of b)
                  i response w2 of
             (r, w3, es3) \<Rightarrow>
               (r, w3,
                Log (''Need to subscribe '' @ name fnDef @ '' to '' @ to_string (topic_of b)) # es
                @ [Request (Subscribe (TopicArn i) (protocol_of b)
                              (or_else ep (Str (FunctionArn i))))] @ es3)))"
  by (simp add: subscribeFunction_def thenP_def log_def request_def Let_def
           split: prod.splits sum.splits)


lemma subscribeFunction_effects_prefix:
  assumes "\<not> opts_noDeploy self"
  shows "\<exists>rest. effects (subscribeFunction self fnName fnDef b w) =
      Log (''Need to subscribe '' @ name fnDef @ '' to '' @ to_string (topic_of b))
      # effects (subscribeResolve self fnDef (topic_of b) (protocol_of b) w) @ rest"
proof -
  obtain r w1 es where res: "subscribeResolve self fnDef (topic_of b) (protocol_of b) w = (r, w1, es)"
    by (cases "subscribeResolve self fnDef (topic_of b) (protocol_of b) w") auto
  show ?thesis
  proof (cases r)
    case (Inl e)
    with assms res show ?thesis
      by (simp add: subscribeFunction_unresolved effects_def)
  next
    case (Inr x)
    obtain ep i where x: "x = (ep, i)" by (cases x) auto
    show ?thesis
    proof (cases "truthy (SubscriptionArn i)")
      case True
      with assms res Inr x show ?thesis
        by (simp add: subscribeFunction_existing [of self fnDef b w ep i w1 es] effects_def
              split: option.splits prod.splits)
    next
      case False
      with assms res Inr x show ?thesis
        by (simp add: subscribeFunction_new [of self fnDef b w ep i w1 es] effects_def
              split: sum.splits prod.splits)
    qed
  qed
qed

subsection \<open>Runs of the unsubscribe action\<close>

lemma unsubscribeFunction_effects_prefix:
  "\<exists>rest. effects (unsubscribeFunction self fnName fnDef b w) =
      Log (''Need to unsubscribe '' @ name fnDef @ '' from '' @ to_string (topic_of b))
      # effects (getSubscriptionInfo self fnDef (topic_of b) Undefined Undefined w) @ rest"
  by (cases "getSubscriptionInfo self fnDef (topic_of b) Undefined Undefined w")
     (auto simp: unsubscribeFunction_def Let_def thenP_def log_def effects_def
        split: sum.splits prod.splits)

lemma unsubscribeFunction_requests:
  assumes "lambda_getFunction self (name fnDef) w = (Inr fnArn, w1)"
      and "sns_listSubscriptionsByTopic self (compose_topicArn fnArn (topic_of b)) w1 = (Inr subs, w2)"
  shows "requests (effects (unsubscribeFunction self fnName fnDef b w)) =
           [GetFunction (name fnDef), ListSubscriptionsByTopic (compose_topicArn fnArn (topic_of b))]
           @ (case select_existing Undefined Undefined fnArn (compose_topicArn fnArn (topic_of b)) subs of
                Inl e \<Rightarrow> []
              | Inr i \<Rightarrow> if truthy (SubscriptionArn i) then [Unsubscribe (SubscriptionArn i)] else [])"
  using assms
  by (auto simp: unsubscribeFunction_def getSubscriptionInfo_run promise_defs Let_def effects_def
        resolver_effects_def requests_append
      split: sum.splits prod.splits)

subsection \<open>Runs on the simulated remote side\<close>

lemma sim_fields:
  "\<not> opts_noDeploy sim"
  "name sim_fnDef = ''notify-dev''"
  "sns_subscribe sim = sim_subscribe"
  "elapse sim ms w = map sim_confirm w"
  "sns_setSubscriptionAttributes sim n a v w = (Inr (), w)"
  by (simp_all add: sim_def sim_fnDef_def)

lemma sim_getFunctionEndpoint:
  "getFunctionEndpoint sim sim_fnDef w = (Inr Null, w, [Request GetRestApis])"
  by (simp add: getFunctionEndpoint_def getRestApiId_def promise_defs sim_def sim_fnDef_def)

lemma sim_topicArn:
  "compose_topicArn sim_fnArn (Str ''orders'') = ''arn:aws:sns:us-east-1:111122223333:orders''"
  by (simp add: compose_topicArn_def sim_fnArn_def at_index_def)

lemma sim_getSubscriptionInfo:
  "getSubscriptionInfo sim sim_fnDef (Str ''orders'') protocol httpEndpoint w =
     (select_existing protocol httpEndpoint sim_fnArn
        ''arn:aws:sns:us-east-1:111122223333:orders'' w,
      w, resolver_effects ''notify-dev'' sim_fnArn ''arn:aws:sns:us-east-1:111122223333:orders'')"
  by (simp add: getSubscriptionInfo_run sim_def sim_fnDef_def sim_topicArn)

lemma sim_subscribeResolve:
  "subscribeResolve sim sim_fnDef (Str ''orders'') protocol w =
     (case select_existing protocol Null sim_fnArn ''arn:aws:sns:us-east-1:111122223333:orders'' w of
        Inl e \<Rightarrow> Inl e | Inr i \<Rightarrow> Inr (Null, i),
      w,
      Request GetRestApis
        # resolver_effects ''notify-dev'' sim_fnArn ''arn:aws:sns:us-east-1:111122223333:orders'')"
  by (simp add: subscribeResolve_def thenP_def resolve_def sim_getFunctionEndpoint
        sim_getSubscriptionInfo or_else_def split: sum.splits)


lemma sim_select_none:
  "select_existing protocol httpEndpoint sim_fnArn ''arn:aws:sns:us-east-1:111122223333:orders'' []
   = Inr \<lparr> FunctionArn = sim_fnArn, TopicArn = ''arn:aws:sns:us-east-1:111122223333:orders'',
           SubscriptionArn = Undefined, Endpoint = Undefined \<rparr>"
  by (simp add: select_existing_def)


lemma sim_api_fields:
  "\<not> opts_noDeploy sim_api"
  "name sim_http_fnDef = ''notify-dev''"
  "sns_subscribe sim_api = sim_subscribe"
  "elapse sim_api ms w = map sim_confirm w"
  "sns_setSubscriptionAttributes sim_api n a v w = (Inr (), w)"
  "lambda_getFunction sim_api n w = (Inr sim_fnArn, w)"
  "sns_listSubscriptionsByTopic sim_api ta w = (Inr w, w)"
  by (simp_all add: sim_api_def sim_def sim_http_fnDef_def)

lemma sim_api_getFunctionEndpoint:
  "getFunctionEndpoint sim_api sim_http_fnDef w =
     (Inr (Str (format_invoke_url (Str ''abc123'') (Str ''us-east-1'') (Str ''dev'') (Str ''notify''))),
      w, [Request GetRestApis])"
  by (simp add: getFunctionEndpoint_def getRestApiId_def promise_defs sim_api_def sim_def
        sim_http_fnDef_def or_else_def DEFAULT_REGION_def)

lemma sim_api_getSubscriptionInfo:
  "getSubscriptionInfo sim_api sim_http_fnDef (Str ''orders'') protocol httpEndpoint w =
     (select_existing protocol httpEndpoint sim_fnArn
        ''arn:aws:sns:us-east-1:111122223333:orders'' w,
      w, resolver_effects ''notify-dev'' sim_fnArn ''arn:aws:sns:us-east-1:111122223333:orders'')"
  by (simp add: getSubscriptionInfo_run sim_api_fields sim_topicArn)

lemma sim_api_subscribeResolve_none:
  "subscribeResolve sim_api sim_http_fnDef (Str ''orders'') protocol [] =
     (Inr (Str (format_invoke_url (Str ''abc123'') (Str ''us-east-1'') (Str ''dev'') (Str ''notify'')),
           \<lparr> FunctionArn = sim_fnArn, TopicArn = ''arn:aws:sns:us-east-1:111122223333:orders'',
             SubscriptionArn = Undefined, Endpoint = Undefined \<rparr>),
      [],
      Request GetRestApis
        # resolver_effects ''notify-dev'' sim_fnArn ''arn:aws:sns:us-east-1:111122223333:orders'')"
  by (simp add: subscribeResolve_def thenP_def resolve_def sim_api_getFunctionEndpoint
        sim_api_getSubscriptionInfo sim_select_none)

lemma sim_select_confirmed:
  "select_existing (Str ''https'') Undefined sim_fnArn ''arn:aws:sns:us-east-1:111122223333:orders''
     [sim_confirm sim_pending_sub]
   = Inr \<lparr> FunctionArn = sim_fnArn, TopicArn = ''arn:aws:sns:us-east-1:111122223333:orders'',
           SubscriptionArn = Str ''arn:aws:sns:us-east-1:111122223333:orders:c2'',
           Endpoint = Str (format_invoke_url (Str ''abc123'') (Str ''us-east-1'') (Str ''dev'')
                             (Str ''notify'')) \<rparr>"
  by (simp add: select_existing_def is_match_def sim_pending_sub_def sim_confirm_def char_tables)

lemma pending_literal:
  "contains (toLowerCase ''pending confirmation'') ''pending confirmation''"
  by (simp add: char_tables)






section \<open>Name normalization (C10)\<close>

text \<open>
  C10, as the code has it. Topic-name normalization maps \<open>my-topic!\<close> to \<open>Mytopic\<close>
  and the empty name to \<open>undefined\<close>; the name normalizer \<open>_normalize\<close> maps the empty
  and the undefined name to \<open>undefined\<close>.
\<close>

theorem name_normalization_values:
  "normalizeTopicName (Str ''my-topic!'') = Inr (Str ''Mytopic'')
   \<and> normalizeTopicName (Str []) = Inr Undefined
   \<and> normalize_name (Str []) = Undefined
   \<and> normalize_name Undefined = Undefined"
  by (simp add: char_tables)

text \<open>
  C10 as stated fails for the undefined name: topic-name normalization calls
  \<open>replace\<close> on it and throws, so it yields no result, absent or otherwise.
\<close>

theorem normalizeTopicName_undefined_throws:
  "normalizeTopicName Undefined = Inl TypeError"
  by simp

section \<open>Set-subscription-attributes with an empty identifier (C7)\<close>

text \<open>
  C7. With a falsy subscription identifier, whatever the attribute, the operation resolves
  to the message \<open>Subscription ARN was empty\<close>, issues no request and leaves the remote
  side as it was.
\<close>

theorem setSubscriptionAttributes_empty_identifier:
  "\<not> truthy subscriptionArn \<Longrightarrow>
     setSubscriptionAttributes self subscriptionArn attribute w =
       (Inr (Message ''Subscription ARN was empty''), w, [])"
  by (simp add: setSubscriptionAttributes_def resolve_def)

text \<open>
  An instance: the undefined identifier, on the simulated remote side.
\<close>

theorem setSubscriptionAttributes_empty_identifier_witness:
  "\<not> truthy Undefined
   \<and> setSubscriptionAttributes sim Undefined \<lparr> attr_name = ''DeliveryPolicy'', attr_value = 3 \<rparr> []
       = (Inr (Message ''Subscription ARN was empty''), [], [])"
proof -
  have h: "\<not> truthy Undefined" by simp
  show ?thesis
    using h setSubscriptionAttributes_empty_identifier [OF h, of sim
                "\<lparr> attr_name = ''DeliveryPolicy'', attr_value = 3 \<rparr>" "[]"]
    by simp
qed

section \<open>Permission compiler (C8)\<close>

text \<open>
  C8, as the code has it. For a binding that carries a topic name \<open>t\<close>, as a bare string
  or as the \<open>topic\<close> of an object, the permission compiler succeeds and the template it
  returns is the given one with one key set: the normalized function name,
  \<open>LambdaPermission\<close>, and the normalized topic name. The resource has the stated type,
  principal, action and source ARN, and compiling again into the result changes nothing.
\<close>

theorem addEventPermission_one_resource:
  assumes "b = Bare t \<or> b = Structured (Str t) d p"
  shows "\<exists>nt perm.
           normalizeTopicName (Str t) = Inr nt
         \<and> addEventPermission fnName fnDef b Resources =
             Inr (Resources(to_string (normalize_name (Str fnName)) @ ''LambdaPermission''
                              @ to_string nt \<mapsto> perm))
         \<and> Type perm = ''AWS::Lambda::Permission''
         \<and> Principal perm = ''sns.amazonaws.com''
         \<and> Action perm = ''lambda:InvokeFunction''
         \<and> SourceArn perm = Join '':'' [Lit (Str ''arn:aws:sns''), Ref ''AWS::Region'',
                                         Ref ''AWS::AccountId'', Lit (Str t)]
         \<and> addEventPermission fnName fnDef b
               (Resources(to_string (normalize_name (Str fnName)) @ ''LambdaPermission''
                            @ to_string nt \<mapsto> perm)) =
             Inr (Resources(to_string (normalize_name (Str fnName)) @ ''LambdaPermission''
                              @ to_string nt \<mapsto> perm))"
proof -
  let ?nt = "normalize_name (Str (filter is_alnum t))"
  let ?perm = "\<lparr> Type = ''AWS::Lambda::Permission'',
                 FunctionName = GetAtt (to_string (normalize_name (Str fnName)) @ ''LambdaFunction'') ''Arn'',
                 Action = ''lambda:InvokeFunction'',
                 Principal = ''sns.amazonaws.com'',
                 SourceArn = Join '':'' [Lit (Str ''arn:aws:sns''), Ref ''AWS::Region'',
                                         Ref ''AWS::AccountId'', Lit (Str t)] \<rparr>"
  have topic: "topic_of b = Str t"
    using assms by auto
  have run: "addEventPermission fnName fnDef b R =
               Inr (R(to_string (normalize_name (Str fnName)) @ ''LambdaPermission''
                        @ to_string ?nt \<mapsto> ?perm))" for R
    using topic by (simp add: addEventPermission_def Let_def)
  show ?thesis
    apply (rule exI [of _ ?nt])
    apply (rule exI [of _ ?perm])
    apply (simp only: run)
    apply simp
    done
qed

text \<open>
  An instance: function \<open>notify\<close> and topic \<open>my-topic!\<close>, as a bare string and as an
  object with a policy and a protocol, compiled into the empty template.
\<close>

theorem addEventPermission_one_resource_witness:
  "(\<exists>perm. addEventPermission ''notify'' sim_fnDef (Bare ''my-topic!'') Map.empty
              = Inr [''NotifyLambdaPermissionMytopic'' \<mapsto> perm]
           \<and> Principal perm = ''sns.amazonaws.com''
           \<and> SourceArn perm = Join '':'' [Lit (Str ''arn:aws:sns''), Ref ''AWS::Region'',
                                           Ref ''AWS::AccountId'', Lit (Str ''my-topic!'')])
   \<and> (\<exists>perm. addEventPermission ''notify'' sim_fnDef
                  (Structured (Str ''my-topic!'') (Some 7) (Str ''lambda'')) Map.empty
                = Inr [''NotifyLambdaPermissionMytopic'' \<mapsto> perm]
             \<and> Principal perm = ''sns.amazonaws.com''
             \<and> SourceArn perm = Join '':'' [Lit (Str ''arn:aws:sns''), Ref ''AWS::Region'',
                                             Ref ''AWS::AccountId'', Lit (Str ''my-topic!'')])"
proof -
  have h1: "(Bare ''my-topic!'' :: nat binding) = Bare ''my-topic!''
              \<or> Bare ''my-topic!'' = Structured (Str ''my-topic!'') None Undefined"
    by simp
  have h2: "Structured (Str ''my-topic!'') (Some (7::nat)) (Str ''lambda'') = Bare ''my-topic!''
              \<or> Structured (Str ''my-topic!'') (Some (7::nat)) (Str ''lambda'')
                  = Structured (Str ''my-topic!'') (Some 7) (Str ''lambda'')"
    by simp
  have a: "\<exists>perm. addEventPermission ''notify'' sim_fnDef (Bare ''my-topic!'') Map.empty
              = Inr [''NotifyLambdaPermissionMytopic'' \<mapsto> perm]
           \<and> Principal perm = ''sns.amazonaws.com''
           \<and> SourceArn perm = Join '':'' [Lit (Str ''arn:aws:sns''), Ref ''AWS::Region'',
                                           Ref ''AWS::AccountId'', Lit (Str ''my-topic!'')]"
    using addEventPermission_one_resource [OF h1, of "''notify''" sim_fnDef Map.empty]
    by (auto simp: char_tables)
  have b: "\<exists>perm. addEventPermission ''notify'' sim_fnDef
                  (Structured (Str ''my-topic!'') (Some 7) (Str ''lambda'')) Map.empty
                = Inr [''NotifyLambdaPermissionMytopic'' \<mapsto> perm]
             \<and> Principal perm = ''sns.amazonaws.com''
             \<and> SourceArn perm = Join '':'' [Lit (Str ''arn:aws:sns''), Ref ''AWS::Region'',
                                             Ref ''AWS::AccountId'', Lit (Str ''my-topic!'')]"
    using addEventPermission_one_resource [OF h2, of "''notify''" sim_fnDef Map.empty]
    by (auto simp: char_tables)
  from a b show ?thesis by (intro conjI)
qed

text \<open>
  C8 as stated fails for an object binding without a \<open>topic\<close> key: topic-name
  normalization throws, and no resource is written.
\<close>

theorem addEventPermission_object_without_topic_throws:
  "addEventPermission ''notify'' sim_fnDef (Structured Undefined (Some 7) (Str ''lambda''))
     Map.empty = Inl TypeError"
  by (simp add: addEventPermission_def)

section \<open>Topic ARN composition (C3)\<close>

text \<open>
  C3. Let the function ARN that \<open>getFunction\<close> returns be the colon-free fields
  \<open>segs\<close> joined by colons (every string is, in one way). Then the resolver asks for the
  subscriptions of the topic ARN \<open>arn:aws:sns:\<close> + field 3 + \<open>:\<close> + field 4 + \<open>:\<close>
  + the topic name, and returns that topic ARN; a field that is not there reads as
  \<open>undefined\<close>.
\<close>

theorem topicArn_from_functionArn_fields:
  assumes "segs \<noteq> []"
      and "\<forall>f\<in>set segs. CHR '':'' \<notin> set f"
      and "lambda_getFunction self (name fnDef) w = (Inr (join_fields segs), w1)"
  shows "requests (effects (getSubscriptionInfo self fnDef topicName protocol httpEndpoint w))
           = [GetFunction (name fnDef),
              ListSubscriptionsByTopic
                (''arn:aws:sns:'' @ to_string (at_index segs 3) @ '':''
                   @ to_string (at_index segs 4) @ '':'' @ to_string topicName)]
       \<and> (\<forall>i. outcome (getSubscriptionInfo self fnDef topicName protocol httpEndpoint w) = Inr i
              \<longrightarrow> FunctionArn i = join_fields segs
                \<and> TopicArn i = ''arn:aws:sns:'' @ to_string (at_index segs 3) @ '':''
                                 @ to_string (at_index segs 4) @ '':'' @ to_string topicName)"
proof -
  have sp: "split CHR '':'' (join_fields segs) = segs"
    using assms(1,2) by (rule split_join_fields)
  have arn: "compose_topicArn (join_fields segs) topicName =
               ''arn:aws:sns:'' @ to_string (at_index segs 3) @ '':''
                 @ to_string (at_index segs 4) @ '':'' @ to_string topicName"
    by (simp add: compose_topicArn_def sp)
  show ?thesis
    using assms(3)
    by (auto simp: getSubscriptionInfo_run resolver_effects_def effects_def outcome_def arn
                   select_existing_def
             split: prod.splits sum.splits option.splits)
qed

text \<open>
  An instance: the ARN of \<open>notify-dev\<close> on the simulated remote side, and the topic \<open>orders\<close>.
\<close>

theorem topicArn_from_functionArn_fields_witness:
  "[''arn'', ''aws'', ''lambda'', ''us-east-1'', ''111122223333'', ''function'', ''notify-dev''] \<noteq> []
   \<and> list_all (\<lambda>f. CHR '':'' \<notin> set f)
         [''arn'', ''aws'', ''lambda'', ''us-east-1'', ''111122223333'', ''function'', ''notify-dev'']
   \<and> lambda_getFunction sim (name sim_fnDef) [] =
         (Inr (join_fields [''arn'', ''aws'', ''lambda'', ''us-east-1'', ''111122223333'',
                            ''function'', ''notify-dev'']), [])
   \<and> requests (effects (getSubscriptionInfo sim sim_fnDef (Str ''orders'') (Str ''lambda'') Null []))
         = [GetFunction ''notify-dev'',
            ListSubscriptionsByTopic ''arn:aws:sns:us-east-1:111122223333:orders'']
   \<and> outcome (getSubscriptionInfo sim sim_fnDef (Str ''orders'') (Str ''lambda'') Null [])
         = Inr \<lparr> FunctionArn = sim_fnArn, TopicArn = ''arn:aws:sns:us-east-1:111122223333:orders'',
                 SubscriptionArn = Undefined, Endpoint = Undefined \<rparr>"
proof -
  let ?segs = "[''arn'', ''aws'', ''lambda'', ''us-east-1'', ''111122223333'', ''function'',
                ''notify-dev'']"
  have h1: "?segs \<noteq> []" by simp
  have h2: "\<forall>f\<in>set ?segs. CHR '':'' \<notin> set f" by simp
  have h3: "lambda_getFunction sim (name sim_fnDef) [] = (Inr (join_fields ?segs), [])"
    by (simp add: sim_def sim_fnDef_def sim_fnArn_def)
  have out: "outcome (getSubscriptionInfo sim sim_fnDef (Str ''orders'') (Str ''lambda'') Null [])
         = Inr \<lparr> FunctionArn = sim_fnArn, TopicArn = compose_topicArn sim_fnArn (Str ''orders''),
                 SubscriptionArn = Undefined, Endpoint = Undefined \<rparr>"
    by (simp add: getSubscriptionInfo_run sim_def outcome_def select_existing_def)
  show ?thesis
    using h1 h2 h3 out
      topicArn_from_functionArn_fields [OF h1 h2 h3, of "Str ''orders''" "Str ''lambda''" Null]
    by (simp add: at_index_def sim_fnArn_def sim_fnDef_def)
qed

section \<open>Unsubscribe without a subscription (C6)\<close>

text \<open>
  C6. When the resolver returns an info without a (truthy) \<open>SubscriptionArn\<close>, the
  unsubscribe action resolves (it is not rejected), its effects are its first log line, the
  resolver's effects and the log line saying the function is not subscribed, and none of
  its requests is a mutating one.
\<close>

theorem unsubscribe_without_subscription_is_noop:
  assumes "getSubscriptionInfo self fnDef (topic_of b) Undefined Undefined w = (Inr i, w', es)"
      and "\<not> truthy (SubscriptionArn i)"
  shows "unsubscribeFunction self fnName fnDef b w =
           (Inr NoValue, w',
            Log (''Need to unsubscribe '' @ name fnDef @ '' from '' @ to_string (topic_of b))
              # es @ [Log (''Function '' @ FunctionArn i @ '' is not subscribed to '' @ TopicArn i)])
       \<and> filter mutating (requests (effects (unsubscribeFunction self fnName fnDef b w))) = []"
proof -
  have run: "unsubscribeFunction self fnName fnDef b w =
           (Inr NoValue, w',
            Log (''Need to unsubscribe '' @ name fnDef @ '' from '' @ to_string (topic_of b))
              # es @ [Log (''Function '' @ FunctionArn i @ '' is not subscribed to '' @ TopicArn i)])"
    using assms by (simp add: unsubscribeFunction_def thenP_def log_def resolve_def Let_def)
  have "filter mutating (requests es) = []"
    using assms(1) by (rule getSubscriptionInfo_requests)
  then show ?thesis
    by (simp add: run effects_def requests_append)
qed

text \<open>
  An instance: the topic has no subscriptions.
\<close>

theorem unsubscribe_without_subscription_is_noop_witness:
  "getSubscriptionInfo sim sim_fnDef (topic_of (Bare ''orders'')) Undefined Undefined []
     = (Inr \<lparr> FunctionArn = sim_fnArn, TopicArn = ''arn:aws:sns:us-east-1:111122223333:orders'',
              SubscriptionArn = Undefined, Endpoint = Undefined \<rparr>, [],
        [Request (GetFunction ''notify-dev''), Log (''Function ARN: '' @ sim_fnArn),
         Log ''Topic ARN: arn:aws:sns:us-east-1:111122223333:orders'',
         Request (ListSubscriptionsByTopic ''arn:aws:sns:us-east-1:111122223333:orders'')])
   \<and> \<not> truthy Undefined
   \<and> outcome (unsubscribeFunction sim ''notify'' sim_fnDef (Bare ''orders'') []) = Inr NoValue
   \<and> requests (effects (unsubscribeFunction sim ''notify'' sim_fnDef (Bare ''orders'') []))
       = [GetFunction ''notify-dev'',
          ListSubscriptionsByTopic ''arn:aws:sns:us-east-1:111122223333:orders'']"
proof -
  let ?i = "\<lparr> FunctionArn = sim_fnArn, TopicArn = ''arn:aws:sns:us-east-1:111122223333:orders'',
              SubscriptionArn = Undefined, Endpoint = Undefined \<rparr>"
  let ?es = "[Request (GetFunction ''notify-dev''), Log (''Function ARN: '' @ sim_fnArn),
         Log ''Topic ARN: arn:aws:sns:us-east-1:111122223333:orders'',
         Request (ListSubscriptionsByTopic ''arn:aws:sns:us-east-1:111122223333:orders'')]
         :: nat effect list"
  have h1: "getSubscriptionInfo sim sim_fnDef (topic_of (Bare ''orders'')) Undefined Undefined []
              = (Inr ?i, [], ?es)"
    by (simp add: getSubscriptionInfo_run sim_def sim_fnDef_def select_existing_def
          resolver_effects_def compose_topicArn_def sim_fnArn_def at_index_def)
  have h2: "\<not> truthy (SubscriptionArn ?i)" by simp
  show ?thesis
    using h1 unsubscribe_without_subscription_is_noop [OF h1 h2, of "''notify''"]
    by (simp add: outcome_def effects_def)
qed

section \<open>Unsubscribe and HTTP endpoints (C5)\<close>

text \<open>
  C5. The unsubscribe action resolves with neither a protocol nor an explicit endpoint.
  Where every listed subscription carries a protocol, the match predicate then accepts a
  subscription only if its endpoint is the function ARN or is undefined; it never accepts
  one whose endpoint is an HTTP invoke URL (the function ARN being an ARN); and every
  unsubscribe request of the action is for a listed subscription that the predicate
  accepts.
\<close>

theorem unsubscribe_matches_function_arn_endpoint_only:
  assumes "lambda_getFunction self (name fnDef) w = (Inr fnArn, w1)"
      and "sns_listSubscriptionsByTopic self (compose_topicArn fnArn (topic_of b)) w1 = (Inr subs, w2)"
      and "\<forall>sub\<in>set subs. sub_Protocol sub \<noteq> Undefined"
  shows "(\<forall>sub\<in>set subs. is_match Undefined Undefined fnArn sub = Inr True
            \<longrightarrow> sub_Endpoint sub = Str fnArn \<or> sub_Endpoint sub = Undefined)
       \<and> (\<forall>sub\<in>set subs. \<forall>apiId region stage path.
             prefix ''arn:'' fnArn
             \<and> sub_Endpoint sub = Str (format_invoke_url apiId region stage path)
            \<longrightarrow> is_match Undefined Undefined fnArn sub \<noteq> Inr True)
       \<and> (\<forall>a. Unsubscribe a \<in> set (requests (effects (unsubscribeFunction self fnName fnDef b w)))
            \<longrightarrow> (\<exists>sub\<in>set subs. sub_SubscriptionArn sub = a
                   \<and> is_match Undefined Undefined fnArn sub = Inr True))"
proof (intro conjI ballI allI impI)
  fix sub
  assume "sub \<in> set subs" and "is_match Undefined Undefined fnArn sub = Inr True"
  then show "sub_Endpoint sub = Str fnArn \<or> sub_Endpoint sub = Undefined"
    using assms(3) is_match_unsubscribe by blast
next
  fix sub apiId region stage path
  assume sub: "sub \<in> set subs"
     and url: "prefix ''arn:'' fnArn
               \<and> sub_Endpoint sub = Str (format_invoke_url apiId region stage path)"
  show "is_match Undefined Undefined fnArn sub \<noteq> Inr True"
  proof
    assume "is_match Undefined Undefined fnArn sub = Inr True"
    then have "sub_Endpoint sub = Undefined \<or> sub_Endpoint sub = Str fnArn"
      using assms(3) sub is_match_unsubscribe by blast
    with url show False
      using invoke_url_not_arn [of fnArn apiId region stage path] by auto
  qed
next
  fix a
  assume "Unsubscribe a \<in> set (requests (effects (unsubscribeFunction self fnName fnDef b w)))"
  then have t: "\<exists>i. select_existing Undefined Undefined fnArn
                         (compose_topicArn fnArn (topic_of b)) subs = Inr i
                     \<and> truthy (SubscriptionArn i) \<and> a = SubscriptionArn i"
    unfolding unsubscribeFunction_requests [OF assms(1,2)]
    by (cases "select_existing Undefined Undefined fnArn (compose_topicArn fnArn (topic_of b)) subs")
       (auto split: if_splits)
  then obtain i where i: "select_existing Undefined Undefined fnArn
                            (compose_topicArn fnArn (topic_of b)) subs = Inr i"
      and t: "truthy (SubscriptionArn i)" and a: "a = SubscriptionArn i"
    by blast
  from select_existing_Some [OF i t] a
  show "\<exists>sub\<in>set subs. sub_SubscriptionArn sub = a
          \<and> is_match Undefined Undefined fnArn sub = Inr True"
    by auto
qed

text \<open>
  An instance: the topic has an HTTPS subscription to an invoke URL and a \<open>lambda\<close>
  subscription of the function. Only the second is unsubscribed.
\<close>

theorem unsubscribe_matches_function_arn_endpoint_only_witness:
  "lambda_getFunction sim (name sim_fnDef) [sim_http_sub, sim_lambda_sub]
     = (Inr sim_fnArn, [sim_http_sub, sim_lambda_sub])
   \<and> sns_listSubscriptionsByTopic sim (compose_topicArn sim_fnArn (topic_of (Bare ''orders'')))
         [sim_http_sub, sim_lambda_sub]
     = (Inr [sim_http_sub, sim_lambda_sub], [sim_http_sub, sim_lambda_sub])
   \<and> list_all (\<lambda>sub. sub_Protocol sub \<noteq> Undefined) [sim_http_sub, sim_lambda_sub]
   \<and> prefix ''arn:'' sim_fnArn
   \<and> is_match Undefined Undefined sim_fnArn sim_http_sub \<noteq> Inr True
   \<and> requests (effects (unsubscribeFunction sim ''notify'' sim_fnDef (Bare ''orders'')
                           [sim_http_sub, sim_lambda_sub]))
       = [GetFunction ''notify-dev'',
          ListSubscriptionsByTopic ''arn:aws:sns:us-east-1:111122223333:orders'',
          Unsubscribe (sub_SubscriptionArn sim_lambda_sub)]
   \<and> sub_Endpoint sim_lambda_sub = Str sim_fnArn"
proof -
  let ?w = "[sim_http_sub, sim_lambda_sub]"
  have h1: "lambda_getFunction sim (name sim_fnDef) ?w = (Inr sim_fnArn, ?w)"
    by (simp add: sim_def)
  have h2: "sns_listSubscriptionsByTopic sim (compose_topicArn sim_fnArn (topic_of (Bare ''orders''))) ?w
              = (Inr ?w, ?w)"
    by (simp add: sim_def)
  have h3: "\<forall>sub\<in>set ?w. sub_Protocol sub \<noteq> Undefined"
    by (simp add: sim_http_sub_def sim_lambda_sub_def)
  have p: "prefix ''arn:'' sim_fnArn"
    by (simp add: sim_fnArn_def)
  have u: "sub_Endpoint sim_http_sub = Str (format_invoke_url (Str ''abc123'') (Str ''us-east-1'')
                                           (Str ''dev'') (Str ''notify''))"
    by (simp add: sim_http_sub_def)
  have sel: "select_existing Undefined Undefined sim_fnArn
               (compose_topicArn sim_fnArn (Str ''orders'')) ?w
             = Inr \<lparr> FunctionArn = sim_fnArn,
                     TopicArn = compose_topicArn sim_fnArn (Str ''orders''),
                     SubscriptionArn = sub_SubscriptionArn sim_lambda_sub,
                     Endpoint = sub_Endpoint sim_lambda_sub \<rparr>"
    by (simp add: select_existing_def is_match_def sim_http_sub_def sim_lambda_sub_def
          format_invoke_url_def sim_fnArn_def char_tables)
  have arn: "compose_topicArn sim_fnArn (Str ''orders'') = ''arn:aws:sns:us-east-1:111122223333:orders''"
    by (simp add: compose_topicArn_def sim_fnArn_def at_index_def)
  have r: "requests (effects (unsubscribeFunction sim ''notify'' sim_fnDef (Bare ''orders'') ?w))
       = [GetFunction ''notify-dev'',
          ListSubscriptionsByTopic ''arn:aws:sns:us-east-1:111122223333:orders'',
          Unsubscribe (sub_SubscriptionArn sim_lambda_sub)]"
    using unsubscribeFunction_requests [OF h1 h2, of "''notify''"] sel arn
    by (simp add: sim_fnDef_def sim_lambda_sub_def)
  have "\<forall>sub\<in>set ?w. \<forall>apiId region stage path.
             prefix ''arn:'' sim_fnArn
             \<and> sub_Endpoint sub = Str (format_invoke_url apiId region stage path)
            \<longrightarrow> is_match Undefined Undefined sim_fnArn sub \<noteq> Inr True"
    using unsubscribe_matches_function_arn_endpoint_only [OF h1 h2 h3, of "''notify''"]
    by blast
  then have m: "is_match Undefined Undefined sim_fnArn sim_http_sub \<noteq> Inr True"
    using p u by (metis list.set_intros(1))
  have e: "sub_Endpoint sim_lambda_sub = Str sim_fnArn"
    by (simp add: sim_lambda_sub_def)
  have h3': "list_all (\<lambda>sub. sub_Protocol sub \<noteq> Undefined) ?w"
    using h3 by (simp add: list_all_iff)
  from h1 h2 h3' p m r e show ?thesis
    by (intro conjI)
qed

section \<open>Subscribe with an existing subscription (C4)\<close>




section \<open>Pending confirmation and the delivery policy (C2)\<close>

text \<open>
  C2. In the subscribe action with a delivery policy in the binding, let the resolver report
  no subscription and the \<open>subscribe\<close> request answer with the identifier \<open>arn\<close>.
  If \<open>arn\<close> in lower case contains \<open>pending confirmation\<close>, the action logs, waits
  10000 milliseconds, resolves again, and then sets the policy on the identifier of that
  second resolution (if there is one), which is never the pending identifier; a rejection
  of the second resolution is the action's outcome. Otherwise it sets the policy on
  \<open>arn\<close> at once.
\<close>

theorem subscribe_pending_confirmation_policy:
  assumes nd: "\<not> opts_noDeploy self"
      and b: "b = Structured t (Some policy) p"
      and res: "subscribeResolve self fnDef (topic_of b) (protocol_of b) w = (Inr (ep, i), w1, es1)"
      and none: "\<not> truthy (SubscriptionArn i)"
      and sub: "sns_subscribe self (TopicArn i) (protocol_of b) (or_else ep (Str (FunctionArn i))) w1
                  = (Inr (Str arn), w2)"
      and arn: "arn \<noteq> []"
  shows "let subscribed =
               Log (''Need to subscribe '' @ name fnDef @ '' to '' @ to_string (topic_of b)) # es1
               @ [Request (Subscribe (TopicArn i) (protocol_of b) (or_else ep (Str (FunctionArn i)))),
                  Log (''Function '' @ FunctionArn i @ '' is now subscribed to '' @ TopicArn i)]
         in if contains (toLowerCase arn) ''pending confirmation''
            then (case getSubscriptionInfo self fnDef (topic_of b) (protocol_of b) Undefined
                         (elapse self 10000 w2) of
                    (Inl e, w3, es3) \<Rightarrow>
                      subscribeFunction self fnName fnDef b w =
                        (Inl e, w3,
                         subscribed
                         @ [Log ''Subscription is pending, resubscribing, retrying in 10 seconds'',
                            Delay 10000] @ es3)
                  | (Inr newInfo, w3, es3) \<Rightarrow>
                      effects (subscribeFunction self fnName fnDef b w) =
                        subscribed
                        @ [Log ''Subscription is pending, resubscribing, retrying in 10 seconds'',
                           Delay 10000] @ es3
                        @ [Log (''Setting subscription attributes on: ''
                                  @ to_string (SubscriptionArn newInfo))]
                        @ (if truthy (SubscriptionArn newInfo)
                           then [Request (SetSubscriptionAttributes DELIVERY_POLICY_ATTR
                                            (SubscriptionArn newInfo) policy)]
                           else [])
                      \<and> SubscriptionArn newInfo \<noteq> Str arn)
            else effects (subscribeFunction self fnName fnDef b w) =
                   subscribed
                   @ [Log ''Setting subscription attributes'',
                      Request (SetSubscriptionAttributes DELIVERY_POLICY_ATTR (Str arn) policy)]"
proof -
  let ?a = "\<lparr> attr_name = DELIVERY_POLICY_ATTR, attr_value = policy \<rparr>"
  have attrs: "subscriptionAttrs_of b = Some ?a"
    using b by simp
  note run = subscribeFunction_new [OF nd res none, of fnName]
  show ?thesis
  proof (cases "contains (toLowerCase arn) ''pending confirmation''")
    case False
    have "effects (setSubscriptionAttributes self (Str arn) ?a w2) =
            [Request (SetSubscriptionAttributes DELIVERY_POLICY_ATTR (Str arn) policy)]"
      using arn by (simp add: setSubscriptionAttributes_effects)
    then have "es = [Request (SetSubscriptionAttributes DELIVERY_POLICY_ATTR (Str arn) policy)]"
      if "setSubscriptionAttributes self (Str arn) ?a w2 = (r, w', es)" for r w' es
      using that by (simp add: effects_def)
    with False show ?thesis
      by (auto simp: run sub attrs afterSubscribe_direct [OF arn False] effects_def Let_def
            split: prod.splits)
  next
    case True
    obtain r3 w3 es3 where g: "getSubscriptionInfo self fnDef (topic_of b) (protocol_of b) Undefined
                                 (elapse self 10000 w2) = (r3, w3, es3)"
      by (cases "getSubscriptionInfo self fnDef (topic_of b) (protocol_of b) Undefined
                   (elapse self 10000 w2)") auto
    show ?thesis
    proof (cases r3)
      case (Inl e)
      with True g show ?thesis
        by (simp add: run sub attrs afterSubscribe_pending [OF arn True] Let_def)
    next
      case (Inr newInfo)
      have ne: "SubscriptionArn newInfo \<noteq> Str arn"
      proof
        assume "SubscriptionArn newInfo = Str arn"
        with g Inr have "\<not> contains (toLowerCase arn) ''pending''"
          by (auto dest: getSubscriptionInfo_not_pending)
        with True show False
          by (auto dest: pending_confirmation_pending)
      qed
      have "effects (setSubscriptionAttributes self (SubscriptionArn newInfo) ?a w3) =
              (if truthy (SubscriptionArn newInfo)
               then [Request (SetSubscriptionAttributes DELIVERY_POLICY_ATTR
                                (SubscriptionArn newInfo) policy)]
               else [])"
        by (simp add: setSubscriptionAttributes_effects)
      then have "es = (if truthy (SubscriptionArn newInfo)
               then [Request (SetSubscriptionAttributes DELIVERY_POLICY_ATTR
                                (SubscriptionArn newInfo) policy)]
               else [])"
        if "setSubscriptionAttributes self (SubscriptionArn newInfo) ?a w3 = (r, w', es)" for r w' es
        using that by (simp add: effects_def)
      with True g Inr ne show ?thesis
        by (auto simp: run sub attrs afterSubscribe_pending [OF arn True] effects_def Let_def
              split: prod.splits)
    qed
  qed
qed

text \<open>
  An instance: an HTTPS subscription with a delivery policy. The response is pending; after
  the wait the subscription is confirmed, and the policy is set on the confirmed identifier.
\<close>

theorem subscribe_pending_confirmation_policy_witness:
  "\<not> opts_noDeploy sim_api
   \<and> subscribeResolve sim_api sim_http_fnDef
         (topic_of (Structured (Str ''orders'') (Some (7::nat)) (Str ''https'')))
         (protocol_of (Structured (Str ''orders'') (Some (7::nat)) (Str ''https''))) []
       = (Inr (Str (format_invoke_url (Str ''abc123'') (Str ''us-east-1'') (Str ''dev'')
                      (Str ''notify'')),
               \<lparr> FunctionArn = sim_fnArn,
                 TopicArn = ''arn:aws:sns:us-east-1:111122223333:orders'',
                 SubscriptionArn = Undefined, Endpoint = Undefined \<rparr>),
          [],
          Request GetRestApis
          # resolver_effects ''notify-dev'' sim_fnArn ''arn:aws:sns:us-east-1:111122223333:orders'')
   \<and> \<not> truthy Undefined
   \<and> sns_subscribe sim_api ''arn:aws:sns:us-east-1:111122223333:orders'' (Str ''https'')
         (Str (format_invoke_url (Str ''abc123'') (Str ''us-east-1'') (Str ''dev'') (Str ''notify'')))
         []
       = (Inr (Str ''pending confirmation''), [sim_pending_sub])
   \<and> contains (toLowerCase ''pending confirmation'') ''pending confirmation''
   \<and> requests (effects (subscribeFunction sim_api ''notify'' sim_http_fnDef
                           (Structured (Str ''orders'') (Some (7::nat)) (Str ''https'')) []))
       = [GetRestApis, GetFunction ''notify-dev'',
          ListSubscriptionsByTopic ''arn:aws:sns:us-east-1:111122223333:orders'',
          Subscribe ''arn:aws:sns:us-east-1:111122223333:orders'' (Str ''https'')
            (Str (format_invoke_url (Str ''abc123'') (Str ''us-east-1'') (Str ''dev'')
                    (Str ''notify''))),
          GetFunction ''notify-dev'',
          ListSubscriptionsByTopic ''arn:aws:sns:us-east-1:111122223333:orders'',
          SetSubscriptionAttributes ''DeliveryPolicy''
            (Str ''arn:aws:sns:us-east-1:111122223333:orders:c2'') 7]
   \<and> Delay 10000 \<in> set (effects (subscribeFunction sim_api ''notify'' sim_http_fnDef
                                     (Structured (Str ''orders'') (Some (7::nat)) (Str ''https'')) []))"
proof -
  let ?b = "Structured (Str ''orders'') (Some (7::nat)) (Str ''https'')"
  let ?url = "Str (format_invoke_url (Str ''abc123'') (Str ''us-east-1'') (Str ''dev'') (Str ''notify''))"
  let ?i = "\<lparr> FunctionArn = sim_fnArn,
               TopicArn = ''arn:aws:sns:us-east-1:111122223333:orders'',
               SubscriptionArn = Undefined, Endpoint = Undefined \<rparr>"
  let ?es = "Request GetRestApis
             # resolver_effects ''notify-dev'' sim_fnArn
                 ''arn:aws:sns:us-east-1:111122223333:orders'' :: nat effect list"
  have nd: "\<not> opts_noDeploy sim_api" by (simp add: sim_api_fields)
  have b: "?b = Structured (Str ''orders'') (Some (7::nat)) (Str ''https'')" by simp
  have res: "subscribeResolve sim_api sim_http_fnDef (topic_of ?b) (protocol_of ?b) []
               = (Inr (?url, ?i), [], ?es)"
    by (simp add: sim_api_subscribeResolve_none)
  have none: "\<not> truthy (SubscriptionArn ?i)" by simp
  have sub0: "sns_subscribe sim_api ''arn:aws:sns:us-east-1:111122223333:orders'' (Str ''https'')
                ?url [] = (Inr (Str ''pending confirmation''), [sim_pending_sub])"
    by (simp add: sim_api_fields sim_subscribe_def sim_pending_sub_def)
  have sub: "sns_subscribe sim_api (TopicArn ?i) (protocol_of ?b) (or_else ?url (Str (FunctionArn ?i))) []
               = (Inr (Str ''pending confirmation''), [sim_pending_sub])"
    using sub0 by (simp add: or_else_def format_invoke_url_def)
  have arn: "''pending confirmation'' \<noteq> []" by simp
  have g: "getSubscriptionInfo sim_api sim_http_fnDef (Str ''orders'') (Str ''https'') Undefined
             (elapse sim_api 10000 [sim_pending_sub])
           = (Inr \<lparr> FunctionArn = sim_fnArn,
                    TopicArn = ''arn:aws:sns:us-east-1:111122223333:orders'',
                    SubscriptionArn = Str ''arn:aws:sns:us-east-1:111122223333:orders:c2'',
                    Endpoint = ?url \<rparr>,
              map sim_confirm [sim_pending_sub],
              resolver_effects ''notify-dev'' sim_fnArn
                ''arn:aws:sns:us-east-1:111122223333:orders'')"
    by (simp add: sim_api_fields sim_api_getSubscriptionInfo sim_select_confirmed)
  have eff: "effects (subscribeFunction sim_api ''notify'' sim_http_fnDef ?b []) =
               (Log (''Need to subscribe '' @ name sim_http_fnDef @ '' to '' @ to_string (topic_of ?b))
                  # ?es
                @ [Request (Subscribe (TopicArn ?i) (protocol_of ?b) (or_else ?url (Str (FunctionArn ?i)))),
                   Log (''Function '' @ FunctionArn ?i @ '' is now subscribed to '' @ TopicArn ?i)])
               @ [Log ''Subscription is pending, resubscribing, retrying in 10 seconds'',
                  Delay 10000]
               @ resolver_effects ''notify-dev'' sim_fnArn
                   ''arn:aws:sns:us-east-1:111122223333:orders''
               @ [Log (''Setting subscription attributes on: ''
                         @ to_string (Str ''arn:aws:sns:us-east-1:111122223333:orders:c2''))]
               @ [Request (SetSubscriptionAttributes DELIVERY_POLICY_ATTR
                             (Str ''arn:aws:sns:us-east-1:111122223333:orders:c2'') 7)]"
    using subscribe_pending_confirmation_policy [OF nd b res none sub arn, of "''notify''"]
    by (simp add: Let_def pending_literal g)
  have c1: "requests (effects (subscribeFunction sim_api ''notify'' sim_http_fnDef ?b []))
       = [GetRestApis, GetFunction ''notify-dev'',
          ListSubscriptionsByTopic ''arn:aws:sns:us-east-1:111122223333:orders'',
          Subscribe ''arn:aws:sns:us-east-1:111122223333:orders'' (Str ''https'') ?url,
          GetFunction ''notify-dev'',
          ListSubscriptionsByTopic ''arn:aws:sns:us-east-1:111122223333:orders'',
          SetSubscriptionAttributes ''DeliveryPolicy''
            (Str ''arn:aws:sns:us-east-1:111122223333:orders:c2'') 7]"
    unfolding eff
    by (simp add: resolver_effects_def or_else_def format_invoke_url_def DELIVERY_POLICY_ATTR_def)
  have c2: "Delay 10000 \<in> set (effects (subscribeFunction sim_api ''notify'' sim_http_fnDef ?b []))"
    unfolding eff by simp
  have none': "\<not> truthy Undefined" by simp
  from nd res none' sub0 pending_literal c1 c2 show ?thesis
    by (intro conjI)
qed

section \<open>A binding without a topic name (C9)\<close>

text \<open>
  C9, as the code has it for the subscribe and the unsubscribe action. With a binding whose
  topic name is missing, and the function known to the remote side, both actions go on to
  the listing request, with a topic ARN that ends in the text \<open>undefined\<close>; no check of
  the binding stops them before.
\<close>

theorem missing_topic_name_reaches_remote:
  assumes "topic_of b = Undefined"
      and "lambda_getFunction self (name fnDef) w = (Inr fnArn, w1)"
  shows "take 2 (requests (effects (unsubscribeFunction self fnName fnDef b w))) =
           [GetFunction (name fnDef),
            ListSubscriptionsByTopic
              (''arn:aws:sns:'' @ to_string (at_index (split CHR '':'' fnArn) 3) @ '':''
                 @ to_string (at_index (split CHR '':'' fnArn) 4) @ '':undefined'')]
       \<and> (\<forall>w0 items.
             \<not> opts_noDeploy self \<and> apigateway_getRestApis self w0 = (Inr items, w)
             \<longrightarrow> take 3 (requests (effects (subscribeFunction self fnName fnDef b w0))) =
                   [GetRestApis, GetFunction (name fnDef),
                    ListSubscriptionsByTopic
                      (''arn:aws:sns:'' @ to_string (at_index (split CHR '':'' fnArn) 3) @ '':''
                         @ to_string (at_index (split CHR '':'' fnArn) 4) @ '':undefined'')])"
proof -
  have arn: "compose_topicArn fnArn (topic_of b) =
               ''arn:aws:sns:'' @ to_string (at_index (split CHR '':'' fnArn) 3) @ '':''
                 @ to_string (at_index (split CHR '':'' fnArn) 4) @ '':undefined''"
    using assms(1) by (simp add: compose_topicArn_def)
  note listed = getSubscriptionInfo_requests_listed [OF assms(2), of "topic_of b", unfolded arn]
  have u: "take 2 (requests (effects (unsubscribeFunction self fnName fnDef b w))) =
           [GetFunction (name fnDef),
            ListSubscriptionsByTopic
              (''arn:aws:sns:'' @ to_string (at_index (split CHR '':'' fnArn) 3) @ '':''
                 @ to_string (at_index (split CHR '':'' fnArn) 4) @ '':undefined'')]"
    using unsubscribeFunction_effects_prefix [of self fnName fnDef b w]
    by (auto simp: requests_append listed)
  have s: "take 3 (requests (effects (subscribeFunction self fnName fnDef b w0))) =
                   [GetRestApis, GetFunction (name fnDef),
                    ListSubscriptionsByTopic
                      (''arn:aws:sns:'' @ to_string (at_index (split CHR '':'' fnArn) 3) @ '':''
                         @ to_string (at_index (split CHR '':'' fnArn) 4) @ '':undefined'')]"
    if nd: "\<not> opts_noDeploy self" and api: "apigateway_getRestApis self w0 = (Inr items, w)"
    for w0 items
    using subscribeFunction_effects_prefix [OF nd, of fnName fnDef b w0]
      subscribeResolve_effects [OF api, of fnDef "topic_of b" "protocol_of b"]
    by (auto simp: requests_append listed)
  from u s show ?thesis by blast
qed

text \<open>
  An instance: a binding with no \<open>topic\<close> key, on the simulated remote side.
\<close>

theorem missing_topic_name_reaches_remote_witness:
  "topic_of (Structured Undefined (None :: nat option) Undefined) = Undefined
   \<and> lambda_getFunction sim (name sim_fnDef) [] = (Inr sim_fnArn, [])
   \<and> take 2 (requests (effects (unsubscribeFunction sim ''notify'' sim_fnDef
                                   (Structured Undefined None Undefined) [])))
       = [GetFunction ''notify-dev'',
          ListSubscriptionsByTopic ''arn:aws:sns:us-east-1:111122223333:undefined'']
   \<and> take 3 (requests (effects (subscribeFunction sim ''notify'' sim_fnDef
                                   (Structured Undefined None Undefined) [])))
       = [GetRestApis, GetFunction ''notify-dev'',
          ListSubscriptionsByTopic ''arn:aws:sns:us-east-1:111122223333:undefined'']"
proof -
  let ?b = "Structured Undefined (None :: nat option) Undefined"
  have h1: "topic_of ?b = Undefined" by simp
  have h2: "lambda_getFunction sim (name sim_fnDef) [] = (Inr sim_fnArn, [])"
    by (simp add: sim_def)
  have api: "\<not> opts_noDeploy sim \<and> apigateway_getRestApis sim [] = (Inr [], [])"
    by (simp add: sim_def)
  note inst = missing_topic_name_reaches_remote [OF h1 h2, of "''notify''"]
  have c1: "take 2 (requests (effects (unsubscribeFunction sim ''notify'' sim_fnDef ?b [])))
       = [GetFunction ''notify-dev'',
          ListSubscriptionsByTopic ''arn:aws:sns:us-east-1:111122223333:undefined'']"
    using inst [THEN conjunct1] by (simp add: sim_fields sim_fnArn_def at_index_def)
  have "take 3 (requests (effects (subscribeFunction sim ''notify'' sim_fnDef ?b []))) =
                   [GetRestApis, GetFunction (name sim_fnDef),
                    ListSubscriptionsByTopic
                      (''arn:aws:sns:'' @ to_string (at_index (split CHR '':'' sim_fnArn) 3) @ '':''
                         @ to_string (at_index (split CHR '':'' sim_fnArn) 4) @ '':undefined'')]"
    using inst [THEN conjunct2] api by blast
  then have c2: "take 3 (requests (effects (subscribeFunction sim ''notify'' sim_fnDef ?b [])))
       = [GetRestApis, GetFunction ''notify-dev'',
          ListSubscriptionsByTopic ''arn:aws:sns:us-east-1:111122223333:undefined'']"
    by (simp add: sim_fields sim_fnArn_def at_index_def)
  from h1 h2 c1 c2 show ?thesis by (intro conjI)
qed

text \<open>
  C9 as stated fails for the permission compiler, which the claim includes: with such a
  binding it throws a TypeError in topic-name normalization, and writes nothing.
\<close>

theorem addEventPermission_missing_topic_throws:
  "addEventPermission ''notify'' sim_fnDef (Structured Undefined None Undefined) Map.empty
     = Inl TypeError"
  by (simp add: addEventPermission_def)

section \<open>The selection of the resolver (C1)\<close>

text \<open>
  C1 does not hold of the code. The topic has one confirmed \<open>lambda\<close> subscription,
  of another function; the resolver is asked for protocol \<open>lambda\<close> and no explicit
  endpoint. The endpoint of the subscription is neither the explicit endpoint nor the
  function ARN, and yet the resolver returns its identifier and endpoint: the protocol alone
  selects it. The subscribe action then issues no subscribe request for the function.
\<close>

theorem resolver_selects_other_functions_subscription:
  "outcome (getSubscriptionInfo sim sim_fnDef (Str ''orders'') (Str ''lambda'') Null [sim_other_sub])
     = Inr \<lparr> FunctionArn = sim_fnArn,
             TopicArn = ''arn:aws:sns:us-east-1:111122223333:orders'',
             SubscriptionArn = Str ''arn:aws:sns:us-east-1:111122223333:orders:o1'',
             Endpoint = Str ''arn:aws:lambda:us-east-1:111122223333:function:other-dev'' \<rparr>
   \<and> sub_Endpoint sim_other_sub \<noteq> Str sim_fnArn
   \<and> sub_Endpoint sim_other_sub \<noteq> Null
   \<and> requests (effects (subscribeFunction sim ''notify'' sim_fnDef (Bare ''orders'') [sim_other_sub]))
       = [GetRestApis, GetFunction ''notify-dev'',
          ListSubscriptionsByTopic ''arn:aws:sns:us-east-1:111122223333:orders'']"
proof -
  have sel: "select_existing (Str ''lambda'') Null sim_fnArn
               ''arn:aws:sns:us-east-1:111122223333:orders'' [sim_other_sub]
             = Inr \<lparr> FunctionArn = sim_fnArn,
                     TopicArn = ''arn:aws:sns:us-east-1:111122223333:orders'',
                     SubscriptionArn = Str ''arn:aws:sns:us-east-1:111122223333:orders:o1'',
                     Endpoint = Str ''arn:aws:lambda:us-east-1:111122223333:function:other-dev'' \<rparr>"
    by (simp add: select_existing_def is_match_def sim_other_sub_def char_tables)
  have c1: "outcome (getSubscriptionInfo sim sim_fnDef (Str ''orders'') (Str ''lambda'') Null
                       [sim_other_sub])
     = Inr \<lparr> FunctionArn = sim_fnArn,
             TopicArn = ''arn:aws:sns:us-east-1:111122223333:orders'',
             SubscriptionArn = Str ''arn:aws:sns:us-east-1:111122223333:orders:o1'',
             Endpoint = Str ''arn:aws:lambda:us-east-1:111122223333:function:other-dev'' \<rparr>"
    by (simp add: sim_getSubscriptionInfo sel outcome_def)
  have c2: "sub_Endpoint sim_other_sub \<noteq> Str sim_fnArn" "sub_Endpoint sim_other_sub \<noteq> Null"
    by (simp_all add: sim_other_sub_def sim_fnArn_def)
  have nd: "\<not> opts_noDeploy sim" by (simp add: sim_fields)
  have res: "subscribeResolve sim sim_fnDef (topic_of (Bare ''orders'')) (protocol_of (Bare ''orders''))
               [sim_other_sub]
             = (Inr (Null, \<lparr> FunctionArn = sim_fnArn,
                     TopicArn = ''arn:aws:sns:us-east-1:111122223333:orders'',
                     SubscriptionArn = Str ''arn:aws:sns:us-east-1:111122223333:orders:o1'',
                     Endpoint = Str ''arn:aws:lambda:us-east-1:111122223333:function:other-dev'' \<rparr>),
                [sim_other_sub],
                Request GetRestApis
                # resolver_effects ''notify-dev'' sim_fnArn
                    ''arn:aws:sns:us-east-1:111122223333:orders'')"
    by (simp add: sim_subscribeResolve sel)
  have c3: "requests (effects (subscribeFunction sim ''notify'' sim_fnDef (Bare ''orders'')
                                 [sim_other_sub]))
       = [GetRestApis, GetFunction ''notify-dev'',
          ListSubscriptionsByTopic ''arn:aws:sns:us-east-1:111122223333:orders'']"
    by (simp add: subscribeFunction_existing [OF nd res] effects_def resolver_effects_def
          requests_append)
  from c1 c2 c3 show ?thesis by (intro conjI)
qed

end
